theory Spec2Isabelle
  imports Complex_Main "HOL-Library.AList"
begin

section \<open>Python values and documents\<close>

text \<open>
  A package document is a Python dict from field names to values. The values that occur
  in the functions of \<^verbatim>\<open>filesystem.py\<close> are \<^verbatim>\<open>None\<close>, strings, integers, lists and nested
  dicts. A dict is an association list; the order of the list stands for the iteration
  order of the dict, and lookups go through \<^const>\<open>map_of\<close>.
\<close>

datatype pyval =
    PNone
  | PStr string
  | PInt int
  | PList "pyval list"
  | PDict "(string \<times> pyval) list"

type_synonym document = "(string \<times> pyval) list"

text \<open>Exceptions of the source, as values. \<open>InvalidName\<close> is what
  \<^verbatim>\<open>is_valid_package_name(name, raise_error=True)\<close> raises, \<open>LoadError\<close> wraps whatever the
  metadata loader raises.\<close>

datatype 'e error =
    InvalidName
  | PackageMetadataError
  | OSError
  | TypeError
  | AttributeError
  | AssertionError
  | KeyError
  | SchemaError
  | VersionError
  | LoadError 'e

datatype file_format = Py | Yaml | Txt

fun extension :: "file_format \<Rightarrow> string" where
  "extension Py = ''py''"
| "extension Yaml = ''yaml''"
| "extension Txt = ''txt''"

text \<open>Truthiness of a value (\<^verbatim>\<open>if x:\<close>).\<close>

fun truthy :: "pyval \<Rightarrow> bool" where
  "truthy PNone = False"
| "truthy (PStr s) = (s \<noteq> [])"
| "truthy (PInt n) = (n \<noteq> 0)"
| "truthy (PList xs) = (xs \<noteq> [])"
| "truthy (PDict kvs) = (kvs \<noteq> [])"

text \<open>\<^verbatim>\<open>len(x)\<close>; \<open>None\<close> is the TypeError of a value without a length.\<close>

fun py_len :: "pyval \<Rightarrow> nat option" where
  "py_len (PStr s) = Some (length s)"
| "py_len (PList xs) = Some (length xs)"
| "py_len (PDict kvs) = Some (length kvs)"
| "py_len PNone = None"
| "py_len (PInt n) = None"

text \<open>The slice \<^verbatim>\<open>xs[:n]\<close>: a negative bound counts from the end.\<close>

definition slice_to :: "'a list \<Rightarrow> int \<Rightarrow> 'a list" where
  "slice_to xs n = (if 0 \<le> n then take (nat n) xs else take (nat (int (length xs) + n)) xs)"

text \<open>\<^verbatim>\<open>'\n'.join(xs)\<close>; \<open>None\<close> is the TypeError raised when an item is not a string.\<close>

fun newline_join :: "pyval list \<Rightarrow> string option" where
  "newline_join [] = Some []"
| "newline_join [PStr s] = Some s"
| "newline_join (PStr s # x # xs) =
     (case newline_join (x # xs) of None \<Rightarrow> None | Some r \<Rightarrow> Some (s @ [CHR 0x0A] @ r))"
| "newline_join (_ # xs) = None"

text \<open>\<^verbatim>\<open>t in s\<close> for two strings: \<open>t\<close> occurs in \<open>s\<close> as a substring.\<close>

fun substring_of :: "string \<Rightarrow> string \<Rightarrow> bool" where
  "substring_of t [] = (t = [])"
| "substring_of t (c # s) = (take (length t) (c # s) = t \<or> substring_of t s)"

text \<open>\<^verbatim>\<open>s.strip()\<close> removes leading and trailing whitespace.\<close>

definition isspace :: "char \<Rightarrow> bool" where
  "isspace c = (c \<in> set [CHR '' '', CHR 0x09, CHR 0x0A, CHR 0x0B, CHR 0x0C, CHR 0x0D])"

definition strip :: "string \<Rightarrow> string" where
  "strip s = rev (dropWhile isspace (rev (dropWhile isspace s)))"

text \<open>Dict operations: \<^verbatim>\<open>d[k] = v\<close>, \<^verbatim>\<open>del d[k]\<close> (a KeyError when the key is missing),
  \<^verbatim>\<open>d.update(e)\<close> and \<^verbatim>\<open>k in d\<close>.\<close>

definition dict_set :: "document \<Rightarrow> string \<Rightarrow> pyval \<Rightarrow> document" where
  "dict_set d k v = AList.update k v d"

definition dict_has :: "document \<Rightarrow> string \<Rightarrow> bool" where
  "dict_has d k = (map_of d k \<noteq> None)"

definition dict_del :: "document \<Rightarrow> string \<Rightarrow> 'e error + document" where
  "dict_del d k = (if dict_has d k then Inr (AList.delete k d) else Inl KeyError)"

definition dict_update :: "document \<Rightarrow> document \<Rightarrow> document" where
  "dict_update d e = AList.merge d e"

text \<open>
  \<^verbatim>\<open>k in x\<close> for a string \<open>k\<close> and any value: a key of a dict, an item of a list, a
  substring of a string; \<open>None\<close> is the TypeError of a value that is not a container.
\<close>

fun py_in :: "string \<Rightarrow> pyval \<Rightarrow> bool option" where
  "py_in k (PDict d) = Some (dict_has d k)"
| "py_in k (PList xs) = Some (PStr k \<in> set xs)"
| "py_in k (PStr s) = Some (substring_of k s)"
| "py_in k PNone = None"
| "py_in k (PInt n) = None"

text \<open>
  \<^verbatim>\<open>x.update(y)\<close>: a dict merges a dict; a value that is no dict has no method
  \<^verbatim>\<open>update\<close> (AttributeError). The only arguments that occur in the source are dicts
  (\<^verbatim>\<open>_load_old_formats\<close> returns \<^verbatim>\<open>None\<close> or a dict); another argument is a TypeError here.
\<close>

fun py_update :: "pyval \<Rightarrow> pyval \<Rightarrow> 'e error + pyval" where
  "py_update (PDict d) (PDict e) = Inr (PDict (dict_update d e))"
| "py_update (PDict d) y = Inl TypeError"
| "py_update x y = Inl AttributeError"

section \<open>Changelog truncation\<close>

text \<open>
  \<^verbatim>\<open>FileSystemPackageResource._update_changelog(self, file_format, data)\<close>, with
  \<^verbatim>\<open>config.max_package_changelog_chars\<close> as the argument \<open>maxlen\<close>. The callback receives the
  parsed content of a file: a dict for a yaml file, a string otherwise.
\<close>

definition update_changelog :: "int \<Rightarrow> file_format \<Rightarrow> pyval \<Rightarrow> 'e error + pyval" where
  "update_changelog maxlen file_format data =
     (if file_format = Yaml then
        (case data of
           PDict d \<Rightarrow>
             (case map_of d ''changelog'' of
                None \<Rightarrow> Inr data
              | Some changelog \<Rightarrow>
                  if truthy changelog then
                    (case (case changelog of
                             PList ls \<Rightarrow> map_option (\<lambda>s. (PStr s, True)) (newline_join ls)
                           | _ \<Rightarrow> Some (changelog, False)) of
                       None \<Rightarrow> Inl TypeError
                     | Some (changelog1, changed1) \<Rightarrow>
                         (case py_len changelog1 of
                            None \<Rightarrow> Inl TypeError
                          | Some n \<Rightarrow>
                              if int n > maxlen + 3 then
                                (case changelog1 of
                                   PStr s \<Rightarrow>
                                     Inr (PDict (dict_set d ''changelog''
                                       (PStr (slice_to s maxlen @ ''...''))))
                                 | _ \<Rightarrow> Inl TypeError)
                              else if changed1 then
                                Inr (PDict (dict_set d ''changelog'' changelog1))
                              else Inr data))
                  else Inr data)
         | _ \<Rightarrow> Inl AttributeError)
      else
        (case data of
           PStr s \<Rightarrow>
             Inr (if int (length s) > maxlen + 3 then PStr (slice_to s maxlen @ ''...'')
                  else data)
         | _ \<Rightarrow> Inl AssertionError))"

section \<open>The environment of the repository\<close>

text \<open>
  A path is the list of its components, so \<^verbatim>\<open>os.path.join(path, name)\<close> appends one
  component (every name joined in the source is a single relative component).
\<close>

type_synonym path = "string list"

definition os_path_join :: "path \<Rightarrow> string \<Rightarrow> path" where
  "os_path_join p n = p @ [n]"

record stat_result =
  st_ino :: nat
  st_mtime :: real

text \<open>
  The variables of a resource: \<^verbatim>\<open>self.location\<close>, \<^verbatim>\<open>self.name\<close>, \<^verbatim>\<open>self.get("version")\<close>,
  \<^verbatim>\<open>self.get("ext")\<close> and \<^verbatim>\<open>self.get("index")\<close>. A variable that was not given reads as
  \<open>None\<close>.
\<close>

record variables =
  location :: path
  name :: string
  version :: "string option"
  ext :: "string option"
  index :: "nat option"

text \<open>
  What the functions of the source take from outside \<^verbatim>\<open>filesystem.py\<close>, as parameters:
  the filesystem as one snapshot (\<^verbatim>\<open>os.path.isfile\<close>, \<^verbatim>\<open>os.path.isdir\<close>, \<^verbatim>\<open>os.stat\<close> and
  \<^verbatim>\<open>os.listdir\<close>, where \<open>None\<close> is the OSError they raise), the parser behind
  \<^verbatim>\<open>load_from_file\<close>, Python's \<^verbatim>\<open>int(str)\<close> (\<open>None\<close> is its ValueError), the
  configured changelog budget, the package-name validity predicate and the location of
  the repository.
\<close>

record 'e env =
  isfile :: "path \<Rightarrow> bool"
  isdir :: "path \<Rightarrow> bool"
  os_stat :: "path \<Rightarrow> stat_result option"
  listdir :: "path \<Rightarrow> string list option"
  load_file :: "path \<Rightarrow> file_format \<Rightarrow> 'e + pyval"
  int_of_str :: "string \<Rightarrow> int option"
  max_package_changelog_chars :: int
  is_valid_package_name :: "string \<Rightarrow> bool"
  repository_location :: path

text \<open>\<^verbatim>\<open>os.path.getmtime(path)\<close> is the modification time of \<^verbatim>\<open>os.stat(path)\<close>.\<close>

definition getmtime :: "'e env \<Rightarrow> path \<Rightarrow> real option" where
  "getmtime w p = map_option st_mtime (os_stat w p)"

text \<open>
  Modelled from the spec: \<^verbatim>\<open>load_from_file\<close> of \<^verbatim>\<open>rez.serialise\<close> is not under src/. It is
  the Metadata Loader of the spec: it parses the file in the declared format or fails,
  and, as the source calls it, hands the parsed data to \<^verbatim>\<open>update_data_callback\<close> (when one
  is given) and returns what the callback returns.
\<close>

definition load_from_file ::
  "'e env \<Rightarrow> path \<Rightarrow> file_format \<Rightarrow> (file_format \<Rightarrow> pyval \<Rightarrow> 'e error + pyval) option
     \<Rightarrow> 'e error + pyval" where
  "load_from_file w filepath format' update_data_callback =
     (case load_file w filepath format' of
        Inl e \<Rightarrow> Inl (LoadError e)
      | Inr result \<Rightarrow>
          (case update_data_callback of
             None \<Rightarrow> Inr result
           | Some callback \<Rightarrow> callback format' result))"

section \<open>Resources and the resource pool\<close>

type_synonym handle = "string \<times> variables"

text \<open>
  The state of the process: the resource pool, and the memo table of \<^verbatim>\<open>_get_family\<close>.
  The pool lists the handles (resource key and variables) for which a resource object has
  been made, in the order of creation; the identity of a resource object is its position
  in the pool.
\<close>

record state =
  pool :: "handle list"
  family_cache :: "(string \<times> nat option) list"

fun pool_lookup :: "handle list \<Rightarrow> handle \<Rightarrow> nat option" where
  "pool_lookup [] h = None"
| "pool_lookup (x # xs) h = (if x = h then Some 0 else map_option Suc (pool_lookup xs h))"

text \<open>The handle a resource object was made for.\<close>

definition handle_of :: "state \<Rightarrow> nat \<Rightarrow> handle option" where
  "handle_of st obj = (if obj < length (pool st) then Some (pool st ! obj) else None)"

text \<open>
  Modelled from the spec: \<^verbatim>\<open>get_resource\<close> of the resource pool is not under src/. Per the
  spec (4.2) it resolves a (kind, parameters) key to a singleton resource instance,
  memoized for the process lifetime: a key seen before gives the object made for it, a
  new key makes a new object and stores it. A keyword that a call leaves out is the
  variable \<open>None\<close>.
\<close>

definition get_resource :: "string \<Rightarrow> variables \<Rightarrow> state \<Rightarrow> nat \<times> state" where
  "get_resource resource_key vs st =
     (case pool_lookup (pool st) (resource_key, vs) of
        Some obj \<Rightarrow> (obj, st)
      | None \<Rightarrow> (length (pool st), st\<lparr>pool := pool st @ [(resource_key, vs)]\<rparr>))"

text \<open>A later state of the process: objects and memo entries are only ever added.\<close>

definition extends :: "state \<Rightarrow> state \<Rightarrow> bool" where
  "extends st st' =
     (take (length (pool st)) (pool st') = pool st
      \<and> list_all (\<lambda>(nm, r). map_of (family_cache st') nm = Some r)
           (filter (\<lambda>(nm, r). map_of (family_cache st) nm = Some r) (family_cache st)))"

section \<open>Utility functions\<close>

text \<open>\<^verbatim>\<open>_get_file(path, name)\<close>: the loop over \<^verbatim>\<open>(FileFormat.py, FileFormat.yaml)\<close>;
  \<open>None\<close> is the pair \<^verbatim>\<open>(None, None)\<close>.\<close>

fun get_file_loop ::
  "'e env \<Rightarrow> path \<Rightarrow> string \<Rightarrow> file_format list \<Rightarrow> (path \<times> file_format) option" where
  "get_file_loop w path nm [] = None"
| "get_file_loop w path nm (format' # rest) =
     (let filename = nm @ ''.'' @ extension format';
          filepath = os_path_join path filename
      in if isfile w filepath then Some (filepath, format')
         else get_file_loop w path nm rest)"

definition get_file :: "'e env \<Rightarrow> path \<Rightarrow> string \<Rightarrow> (path \<times> file_format) option" where
  "get_file w path nm = get_file_loop w path nm [Py, Yaml]"

section \<open>Split-layout resources\<close>

subsection \<open>FileSystemPackageFamilyResource\<close>

definition family_path :: "variables \<Rightarrow> path" where
  "family_path self = os_path_join (location self) (name self)"

text \<open>\<^verbatim>\<open>get_last_release_time\<close>: the \<^verbatim>\<open>except OSError\<close> clause returns 0.\<close>

definition get_last_release_time :: "'e env \<Rightarrow> variables \<Rightarrow> 'e error + real" where
  "get_last_release_time w self =
     (let path = os_path_join (location self) (name self)
      in case getmtime w path of
           Some t \<Rightarrow> Inr t
         | None \<Rightarrow> Inr 0)"

text \<open>
  \<^verbatim>\<open>_get_version_dirs(root)\<close> of the repository: \<^verbatim>\<open>os.stat\<close> (for the key of the listing
  cache) and \<^verbatim>\<open>os.listdir\<close> raise OSError. The function is the computation on a miss of the
  listing cache.
\<close>

definition startswith :: "string \<Rightarrow> string \<Rightarrow> bool" where
  "startswith s p = (take (length p) s = p)"

definition get_version_dirs :: "'e env \<Rightarrow> path \<Rightarrow> 'e error + string list" where
  "get_version_dirs w rootdir =
     (case os_stat w rootdir of
        None \<Rightarrow> Inl OSError
      | Some st \<Rightarrow>
          (case listdir w rootdir of
             None \<Rightarrow> Inl OSError
           | Some names \<Rightarrow>
               Inr (filter (\<lambda>nm. \<not> startswith nm ''.'' \<and> isdir w (os_path_join rootdir nm)) names)))"

text \<open>\<^verbatim>\<open>iter_packages\<close>: the generator's items as a list. The second loop makes one package
  per version directory.\<close>

fun yield_packages :: "variables \<Rightarrow> string list \<Rightarrow> state \<Rightarrow> nat list \<times> state" where
  "yield_packages self [] st = ([], st)"
| "yield_packages self (version_str # rest) st =
     (let (package, st1) =
            get_resource ''filesystem.package''
              \<lparr>location = location self, name = name self, version = Some version_str,
               ext = None, index = None\<rparr> st;
          (packages, st2) = yield_packages self rest st1
      in (package # packages, st2))"

definition iter_packages :: "'e env \<Rightarrow> variables \<Rightarrow> state \<Rightarrow> 'e error + (nat list \<times> state)" where
  "iter_packages w self st =
     (case get_file w (family_path self) ''package'' of
        Some (filepath, format') \<Rightarrow>
          (let (package, st1) =
                 get_resource ''filesystem.package''
                   \<lparr>location = location self, name = name self, version = None,
                    ext = None, index = None\<rparr> st
           in Inr ([package], st1))
      | None \<Rightarrow>
          (case get_version_dirs w (family_path self) of
             Inl e \<Rightarrow> Inl e
           | Inr dirs \<Rightarrow> Inr (yield_packages self dirs st)))"

subsection \<open>FileSystemPackageResource\<close>

definition package_parent :: "variables \<Rightarrow> state \<Rightarrow> nat \<times> state" where
  "package_parent self st =
     get_resource ''filesystem.family''
       \<lparr>location = location self, name = name self, version = None, ext = None,
        index = None\<rparr> st"

text \<open>\<^verbatim>\<open>path\<close>: the version is joined when it is truthy (neither None nor empty).\<close>

definition package_path :: "variables \<Rightarrow> path" where
  "package_path self =
     (let path = os_path_join (location self) (name self)
      in case version self of
           None \<Rightarrow> path
         | Some ver_str \<Rightarrow> if ver_str \<noteq> [] then os_path_join path ver_str else path)"

definition filepath_and_format :: "'e env \<Rightarrow> variables \<Rightarrow> (path \<times> file_format) option" where
  "filepath_and_format w self = get_file w (package_path self) ''package''"

definition package_filepath :: "'e env \<Rightarrow> variables \<Rightarrow> path option" where
  "package_filepath w self = map_option fst (filepath_and_format w self)"

definition package_file_format :: "'e env \<Rightarrow> variables \<Rightarrow> file_format option" where
  "package_file_format w self = map_option snd (filepath_and_format w self)"

text \<open>\<^verbatim>\<open>_uri\<close> returns \<^verbatim>\<open>self.filepath\<close>, and the attribute \<^verbatim>\<open>uri\<close> of the resource is the
  value of \<^verbatim>\<open>_uri\<close>: the path of the metadata file, not the directory of the package.\<close>

definition uri :: "'e env \<Rightarrow> variables \<Rightarrow> path option" where
  "uri w self = package_filepath w self"

definition state_handle :: "'e env \<Rightarrow> variables \<Rightarrow> 'e error + real option" where
  "state_handle w self =
     (case package_filepath w self of
        Some fp \<Rightarrow> (case getmtime w fp of None \<Rightarrow> Inl OSError | Some t \<Rightarrow> Inr (Some t))
      | None \<Rightarrow> Inr None)"

text \<open>
  \<^verbatim>\<open>_load_old_formats\<close>. The result is \<open>PNone\<close> or a dict. \<^verbatim>\<open>os.path.join(None, ...)\<close>
  raises AttributeError. The bare \<^verbatim>\<open>except: pass\<close> around
  \<^verbatim>\<open>data["timestamp"] = int(value.strip())\<close> leaves the dict as it was when the value is
  not a string or is not an integer literal.
\<close>

definition load_old_formats :: "'e env \<Rightarrow> variables \<Rightarrow> 'e error + pyval" where
  "load_old_formats w self =
     (case uri w self of
        None \<Rightarrow> Inl AttributeError
      | Some path \<Rightarrow>
          (let filepath = os_path_join path ''release.yaml''
           in if isfile w filepath then
                load_from_file w filepath Yaml
                  (Some (update_changelog (max_package_changelog_chars w)))
              else
                (let path' = os_path_join path ''.metadata''
                 in if isdir w path' then
                      (case (let filepath = os_path_join path' ''changelog.txt''
                             in if isfile w filepath then
                                  (case load_from_file w filepath Txt
                                          (Some (update_changelog (max_package_changelog_chars w))) of
                                     Inl e \<Rightarrow> Inl e
                                   | Inr changelog \<Rightarrow> Inr (dict_set [] ''changelog'' changelog))
                                else Inr []) of
                         Inl e \<Rightarrow> Inl e
                       | Inr data \<Rightarrow>
                           (let filepath = os_path_join path' ''release_time.txt''
                            in if isfile w filepath then
                                 (case load_from_file w filepath Txt None of
                                    Inl e \<Rightarrow> Inl e
                                  | Inr value \<Rightarrow>
                                      Inr (PDict
                                        (case value of
                                           PStr s \<Rightarrow>
                                             (case int_of_str w (strip s) of
                                                Some n \<Rightarrow> dict_set data ''timestamp'' (PInt n)
                                              | None \<Rightarrow> data)
                                         | _ \<Rightarrow> data)))
                               else Inr (PDict data)))
                    else Inr PNone)))"

text \<open>
  \<^verbatim>\<open>_load\<close>. The parsed data is whatever the loader returns: \<^verbatim>\<open>"timestamp" not in data\<close>
  and \<^verbatim>\<open>data.update(data_)\<close> are evaluated on it as Python does.
\<close>

definition load :: "'e env \<Rightarrow> variables \<Rightarrow> 'e error + pyval" where
  "load w self =
     (case filepath_and_format w self of
        None \<Rightarrow> Inl PackageMetadataError
      | Some (filepath, file_format) \<Rightarrow>
          (case load_from_file w filepath file_format None of
             Inl e \<Rightarrow> Inl e
           | Inr data \<Rightarrow>
               (case py_in ''timestamp'' data of
                  None \<Rightarrow> Inl TypeError
                | Some True \<Rightarrow> Inr data
                | Some False \<Rightarrow>
                    (case load_old_formats w self of
                       Inl e \<Rightarrow> Inl e
                     | Inr data' \<Rightarrow>
                         if truthy data' then py_update data data' else Inr data))))"

subsection \<open>FileSystemVariantResource\<close>

definition variant_parent :: "variables \<Rightarrow> state \<Rightarrow> nat \<times> state" where
  "variant_parent self st =
     get_resource ''filesystem.package''
       \<lparr>location = location self, name = name self, version = version self, ext = None,
        index = None\<rparr> st"

section \<open>Combined-layout resources\<close>

text \<open>
  The version library (\<^verbatim>\<open>rez.vendor.version\<close>) as parameters: \<^verbatim>\<open>Version(version_str)\<close> and
  \<^verbatim>\<open>VersionRange(range_str)\<close>, where \<open>None\<close> is the error raised by a malformed string,
  and the test \<^verbatim>\<open>version in range_\<close>.
\<close>

record ('ver, 'rng) version_lib =
  Version :: "string option \<Rightarrow> 'ver option"
  VersionRange :: "string \<Rightarrow> 'rng option"
  range_contains :: "'rng \<Rightarrow> 'ver \<Rightarrow> bool"

subsection \<open>FileSystemCombinedPackageFamilyResource\<close>

text \<open>\<^verbatim>\<open>filepath\<close>: the file name is \<^verbatim>\<open>"%s.%s" % (self.name, self.ext)\<close>, and a missing
  \<^verbatim>\<open>ext\<close> formats as \<^verbatim>\<open>None\<close>.\<close>

definition combined_family_filepath :: "variables \<Rightarrow> path" where
  "combined_family_filepath self =
     (let filename = name self @ ''.'' @ (case ext self of None \<Rightarrow> ''None'' | Some e \<Rightarrow> e)
      in os_path_join (location self) filename)"

definition combined_get_last_release_time :: "'e env \<Rightarrow> variables \<Rightarrow> 'e error + real" where
  "combined_get_last_release_time w self =
     (case getmtime w (combined_family_filepath self) of
        Some t \<Rightarrow> Inr t
      | None \<Rightarrow> Inr 0)"

text \<open>
  The attribute \<^verbatim>\<open>version_overrides\<close> of the family, validated by the schema the class
  declares: \<^verbatim>\<open>Optional("version_overrides"): {And(basestring, Use(VersionRange)): dict}\<close>.
  The attribute is \<open>None\<close> when the family document has no such key. Otherwise the value
  must be a dict; every key is turned into a range and every value must be a dict; and
  since the one key of the inner schema is not \<^verbatim>\<open>Optional\<close>, at least one entry must match
  it, so the empty mapping fails the validation (missed keys). Every failure is a schema
  error. The list keeps the iteration order of the mapping.
\<close>

fun validate_entries ::
  "('ver, 'rng) version_lib \<Rightarrow> (string \<times> pyval) list \<Rightarrow> ('rng \<times> document) list option" where
  "validate_entries V [] = Some []"
| "validate_entries V ((k, PDict fragment) # kvs) =
     (case VersionRange V k of
        None \<Rightarrow> None
      | Some r \<Rightarrow> map_option ((#) (r, fragment)) (validate_entries V kvs))"
| "validate_entries V ((k, v) # kvs) = None"

definition validate_overrides ::
  "('ver, 'rng) version_lib \<Rightarrow> (string \<times> pyval) list \<Rightarrow> ('rng \<times> document) list option" where
  "validate_overrides V kvs = (if kvs = [] then None else validate_entries V kvs)"

definition version_overrides ::
  "('ver, 'rng) version_lib \<Rightarrow> document \<Rightarrow> 'e error + ('rng \<times> document) list option" where
  "version_overrides V family_data =
     (case map_of family_data ''version_overrides'' of
        None \<Rightarrow> Inr None
      | Some (PDict kvs) \<Rightarrow>
          (case validate_overrides V kvs of
             None \<Rightarrow> Inl SchemaError
           | Some overrides \<Rightarrow> Inr (Some overrides))
      | Some v \<Rightarrow> Inl SchemaError)"

subsection \<open>FileSystemCombinedPackageResource\<close>

text \<open>The loop \<^verbatim>\<open>for range_, data_ in overrides.iteritems()\<close> of \<^verbatim>\<open>_load\<close>.\<close>

fun apply_overrides ::
  "('ver, 'rng) version_lib \<Rightarrow> 'ver \<Rightarrow> ('rng \<times> document) list \<Rightarrow> document \<Rightarrow> document" where
  "apply_overrides V ver [] data = data"
| "apply_overrides V ver ((range', data') # rest) data =
     apply_overrides V ver rest
       (if range_contains V range' ver then dict_update data data' else data)"

text \<open>
  \<^verbatim>\<open>_load\<close> of a combined package: \<open>family_data\<close> is \<^verbatim>\<open>self.parent.data\<close>, the loaded
  document of the family, and \<^verbatim>\<open>self.parent.version_overrides\<close> is its validated
  attribute.
\<close>

definition combined_load ::
  "('ver, 'rng) version_lib \<Rightarrow> document \<Rightarrow> variables \<Rightarrow> 'e error + document" where
  "combined_load V family_data self =
     (let data = family_data
      in if dict_has data ''versions'' then
           (let data = AList.delete ''versions'' data;
                version_str = version self;
                data = dict_set data ''version''
                         (case version_str of None \<Rightarrow> PNone | Some s \<Rightarrow> PStr s)
            in case Version V version_str of
                 None \<Rightarrow> Inl VersionError
               | Some ver \<Rightarrow>
                   (case version_overrides V family_data of
                      Inl e \<Rightarrow> Inl e
                    | Inr overrides \<Rightarrow>
                        (case overrides of
                           None \<Rightarrow> Inr data
                         | Some ovs \<Rightarrow>
                             if ovs \<noteq> [] then
                               dict_del (apply_overrides V ver ovs data) ''version_overrides''
                             else Inr data)))
         else Inr data)"

section \<open>The repository\<close>

text \<open>\<^verbatim>\<open>_get_family(name)\<close>, the function under the \<^verbatim>\<open>lru_cache\<close> decorator.\<close>

definition get_family_body ::
  "'e env \<Rightarrow> string \<Rightarrow> state \<Rightarrow> 'e error + (nat option \<times> state)" where
  "get_family_body w nm st =
     (if \<not> is_valid_package_name w nm then Inl InvalidName
      else if isdir w (os_path_join (repository_location w) nm) then
        (let (family, st1) =
               get_resource ''filesystem.family''
                 \<lparr>location = repository_location w, name = nm, version = None, ext = None,
                  index = None\<rparr> st
         in Inr (Some family, st1))
      else
        (case get_file w (repository_location w) nm of
           Some (filepath, format') \<Rightarrow>
             (let (family, st1) =
                    get_resource ''filesystem.family.combined''
                      \<lparr>location = repository_location w, name = nm, version = None,
                       ext = Some (extension format'), index = None\<rparr> st
              in Inr (Some family, st1))
         | None \<Rightarrow> Inr (None, st)))"

text \<open>
  Modelled from the spec: \<^verbatim>\<open>lru_cache\<close> of \<^verbatim>\<open>rez.backport.lru_cache\<close> is not under src/.
  With \<^verbatim>\<open>maxsize=None\<close> it is a memo table keyed by the argument that never evicts (the
  spec: memoized per name): a name in the table gives the stored result, another name
  runs the function and stores what it returns; a call that raises stores nothing.
\<close>

definition get_family :: "'e env \<Rightarrow> string \<Rightarrow> state \<Rightarrow> 'e error + (nat option \<times> state)" where
  "get_family w nm st =
     (case map_of (family_cache st) nm of
        Some r \<Rightarrow> Inr (r, st)
      | None \<Rightarrow>
          (case get_family_body w nm st of
             Inl e \<Rightarrow> Inl e
           | Inr (r, st1) \<Rightarrow> Inr (r, st1\<lparr>family_cache := (nm, r) # family_cache st1\<rparr>)))"

definition get_package_family ::
  "'e env \<Rightarrow> string \<Rightarrow> state \<Rightarrow> 'e error + (nat option \<times> state)" where
  "get_package_family w nm st = get_family w nm st"

text \<open>
  The memo table agrees with the filesystem \<open>w\<close> at a name: it has no entry for the name,
  or running \<^verbatim>\<open>_get_family\<close> again would return the stored result and make nothing new.
  This holds at every name when nothing has been looked up yet, and every
  \<^verbatim>\<open>get_package_family\<close> on the same filesystem keeps it.
\<close>

definition memo_ok :: "'e env \<Rightarrow> state \<Rightarrow> string \<Rightarrow> bool" where
  "memo_ok w st nm =
     (case map_of (family_cache st) nm of
        None \<Rightarrow> True
      | Some r \<Rightarrow> get_family_body w nm st = Inr (r, st))"

section \<open>An example repository\<close>

text \<open>
  A small repository for the concrete instances below. \<^verbatim>\<open>foo\<close> is a split family with a
  top-level \<^verbatim>\<open>package.py\<close> and a version directory (a file \<^verbatim>\<open>foo.yaml\<close> lies beside
  the directory); \<^verbatim>\<open>bar\<close> is a split family whose
  versions 1.0 and 3.0 carry a \<^verbatim>\<open>package.yaml\<close> without a timestamp and legacy
  \<^verbatim>\<open>.metadata\<close> files, and whose version 2.0 has no metadata file; \<^verbatim>\<open>baz\<close> is a combined
  family stored both as \<^verbatim>\<open>baz.py\<close> and \<^verbatim>\<open>baz.yaml\<close>, \<^verbatim>\<open>qux\<close> one stored as \<^verbatim>\<open>qux.yaml\<close>.
  Nothing lies under a regular file. In this example a name is valid when it is not
  empty and has no slash, and \<^verbatim>\<open>int\<close> reads the one literal that occurs.
\<close>

definition example_files :: "path list" where
  "example_files =
     [[''repo'', ''foo.yaml''],
      [''repo'', ''foo'', ''package.py''],
      [''repo'', ''bar'', ''1.0'', ''package.yaml''],
      [''repo'', ''bar'', ''1.0'', ''.metadata'', ''changelog.txt''],
      [''repo'', ''bar'', ''1.0'', ''.metadata'', ''release_time.txt''],
      [''repo'', ''bar'', ''3.0'', ''package.yaml''],
      [''repo'', ''bar'', ''3.0'', ''.metadata'', ''release_time.txt''],
      [''repo'', ''baz.py''],
      [''repo'', ''baz.yaml''],
      [''repo'', ''qux.yaml'']]"

definition example_dirs :: "path list" where
  "example_dirs =
     [[''repo''],
      [''repo'', ''foo''],
      [''repo'', ''foo'', ''1.0''],
      [''repo'', ''bar''],
      [''repo'', ''bar'', ''1.0''],
      [''repo'', ''bar'', ''1.0'', ''.metadata''],
      [''repo'', ''bar'', ''2.0''],
      [''repo'', ''bar'', ''3.0''],
      [''repo'', ''bar'', ''3.0'', ''.metadata'']]"

definition example_load_file :: "path \<Rightarrow> file_format \<Rightarrow> unit + pyval" where
  "example_load_file p fmt =
     (if p = [''repo'', ''bar'', ''1.0'', ''package.yaml''] \<and> fmt = Yaml then
        Inr (PDict [(''name'', PStr ''bar''), (''version'', PStr ''1.0''),
                    (''changelog'', PStr ''new log'')])
      else if p = [''repo'', ''bar'', ''3.0'', ''package.yaml''] \<and> fmt = Yaml then
        Inr (PDict [(''name'', PStr ''bar''), (''version'', PStr ''3.0'')])
      else if p = [''repo'', ''bar'', ''1.0'', ''.metadata'', ''changelog.txt''] \<and> fmt = Txt then
        Inr (PStr ''old log'')
      else if p = [''repo'', ''bar'', ''1.0'', ''.metadata'', ''release_time.txt''] \<and> fmt = Txt then
        Inr (PStr (''1400000000'' @ [CHR 0x0A]))
      else if p = [''repo'', ''bar'', ''3.0'', ''.metadata'', ''release_time.txt''] \<and> fmt = Txt then
        Inr (PStr ''not-a-number'')
      else Inl ())"

definition example_env :: "unit env" where
  "example_env =
     \<lparr>isfile = (\<lambda>p. p \<in> set example_files),
      isdir = (\<lambda>p. p \<in> set example_dirs),
      os_stat = (\<lambda>p. if p \<in> set example_files \<or> p \<in> set example_dirs
                       then Some \<lparr>st_ino = 7, st_mtime = 1400000000\<rparr> else None),
      listdir = (\<lambda>p. if p = [''repo'', ''foo''] then Some [''package.py'', ''1.0'']
                       else if p = [''repo'', ''bar''] then Some [''1.0'', ''2.0'', ''3.0'']
                       else None),
      load_file = example_load_file,
      int_of_str = (\<lambda>s. if s = ''1400000000'' then Some 1400000000 else None),
      max_package_changelog_chars = 65536,
      is_valid_package_name = (\<lambda>s. s \<noteq> [] \<and> CHR ''/'' \<notin> set s),
      repository_location = [''repo'']\<rparr>"

definition example_state :: state where
  "example_state = \<lparr>pool = [], family_cache = []\<rparr>"

text \<open>The state after the family \<^verbatim>\<open>foo\<close> has been made, after it has been looked up
  by name, and after its packages have been listed.\<close>

definition example_state_family :: state where
  "example_state_family =
     \<lparr>pool = [(''filesystem.family'',
               \<lparr>location = [''repo''], name = ''foo'', version = None, ext = None,
                index = None\<rparr>)],
      family_cache = []\<rparr>"

definition example_state_looked_up :: state where
  "example_state_looked_up = example_state_family\<lparr>family_cache := [(''foo'', Some 0)]\<rparr>"

definition example_state_listed :: state where
  "example_state_listed =
     example_state_looked_up
       \<lparr>pool := pool example_state_looked_up @
          [(''filesystem.package'',
            \<lparr>location = [''repo''], name = ''foo'', version = None, ext = None,
             index = None\<rparr>)]\<rparr>"

definition example_resource :: "string \<Rightarrow> string option \<Rightarrow> variables" where
  "example_resource nm ver =
     \<lparr>location = [''repo''], name = nm, version = ver, ext = None, index = None\<rparr>"

text \<open>
  A version library for the examples: a version is its string, a range is its string, and
  the range \<^verbatim>\<open>1+\<close> contains the versions 1.0, 1.1 and 1.2, the range \<^verbatim>\<open>1.1+\<close> the versions
  1.1 and 1.2, and a range that is a version contains that version. The first family
  document is the one of the spec and of the docstring of the repository class; in the
  second one the two ranges overlap; the third has no \<^verbatim>\<open>versions\<close>; in the fourth
  \<^verbatim>\<open>version_overrides\<close> is empty.
\<close>

definition example_version_lib :: "(string, string) version_lib" where
  "example_version_lib =
     \<lparr>Version = (\<lambda>s. Some (case s of None \<Rightarrow> [] | Some x \<Rightarrow> x)),
      VersionRange = Some,
      range_contains = (\<lambda>r v. r = v
         \<or> (r = ''1+'' \<and> v \<in> set [''1.0'', ''1.1'', ''1.2''])
         \<or> (r = ''1.1+'' \<and> v \<in> set [''1.1'', ''1.2'']))\<rparr>"

definition example_family :: document where
  "example_family =
     [(''name'', PStr ''pkgC''),
      (''versions'', PList [PStr ''1.0'', PStr ''1.1'', PStr ''1.2'']),
      (''version_overrides'',
       PDict [(''1.0'', PDict [(''requires'', PList [PStr ''python-2.5''])]),
              (''1.1+'', PDict [(''requires'', PList [PStr ''python-2.6''])])])]"

definition example_family_overlapping :: document where
  "example_family_overlapping =
     [(''name'', PStr ''pkgC''),
      (''versions'', PList [PStr ''1.0'', PStr ''1.1'', PStr ''1.2'']),
      (''version_overrides'',
       PDict [(''1+'', PDict [(''requires'', PList [PStr ''python-2.5''])]),
              (''1.1+'', PDict [(''requires'', PList [PStr ''python-2.6''])])])]"

definition example_family_unversioned :: document where
  "example_family_unversioned =
     [(''name'', PStr ''pkgD''),
      (''version_overrides'',
       PDict [(''1.0'', PDict [(''requires'', PList [PStr ''python-2.5''])])])]"

definition example_family_no_overrides :: document where
  "example_family_no_overrides =
     [(''name'', PStr ''pkgE''),
      (''versions'', PList [PStr ''1.0'']),
      (''version_overrides'', PDict [])]"

definition example_package :: "string \<Rightarrow> string option \<Rightarrow> variables" where
  "example_package nm ver =
     \<lparr>location = [''repo''], name = nm, version = ver, ext = Some ''yaml'', index = None\<rparr>"

section \<open>Properties\<close>

subsection \<open>Helper facts on documents\<close>

lemma map_of_dict_set: "map_of (dict_set d k v) k' = (if k' = k then Some v else map_of d k')"
  by (simp add: dict_set_def update_conv')

lemma map_of_dict_update: "map_of (dict_update d e) k = (case map_of e k of Some v \<Rightarrow> Some v | None \<Rightarrow> map_of d k)"
  by (simp add: dict_update_def merge_conv' map_add_def)

lemma slice_to_nonneg: "0 \<le> n \<Longrightarrow> slice_to xs n = take (nat n) xs"
  by (simp add: slice_to_def)

lemma newline_join_strs:
  "newline_join (map PStr (l # ls)) = Some (l @ concat (map ((#) (CHR 0x0A)) ls))"
  by (induction ls arbitrary: l) auto

subsection \<open>Helper facts on the resource pool\<close>

lemma pool_lookup_Some: "pool_lookup xs h = Some i \<Longrightarrow> i < length xs \<and> xs ! i = h"
  by (induction xs arbitrary: i) (auto split: if_splits)

lemma pool_lookup_mono: "pool_lookup xs h = Some i \<Longrightarrow> pool_lookup (xs @ ys) h = Some i"
  by (induction xs arbitrary: i) (auto split: if_splits)

lemma pool_lookup_new: "pool_lookup xs h = None \<Longrightarrow> pool_lookup (xs @ [h]) h = Some (length xs)"
  by (induction xs) (auto split: if_splits)

lemma get_resource_handle:
  "get_resource k vs st = (obj, st1) \<Longrightarrow>
     handle_of st1 obj = Some (k, vs) \<and> pool_lookup (pool st1) (k, vs) = Some obj
     \<and> family_cache st1 = family_cache st \<and> (\<exists>ys. pool st1 = pool st @ ys)"
  by (auto simp: get_resource_def handle_of_def pool_lookup_new
      split: option.splits dest: pool_lookup_Some)

lemma get_resource_again:
  "pool_lookup (pool st) (k, vs) = Some obj \<Longrightarrow> get_resource k vs st = (obj, st)"
  by (simp add: get_resource_def)

lemma get_file_cases:
  "get_file w p nm =
     (if isfile w (os_path_join p (nm @ ''.py'')) then Some (os_path_join p (nm @ ''.py''), Py)
      else if isfile w (os_path_join p (nm @ ''.yaml'')) then Some (os_path_join p (nm @ ''.yaml''), Yaml)
      else None)"
  by (simp add: get_file_def Let_def)

lemma extends_iff:
  "extends st st' \<longleftrightarrow>
     (\<exists>ys. pool st' = pool st @ ys)
     \<and> (\<forall>nm r. map_of (family_cache st) nm = Some r \<longrightarrow> map_of (family_cache st') nm = Some r)"
proof -
  have p: "(take (length (pool st)) (pool st') = pool st) \<longleftrightarrow> (\<exists>ys. pool st' = pool st @ ys)"
    by (metis append_eq_conv_conj)
  have c: "list_all (\<lambda>(nm, r). map_of (family_cache st') nm = Some r)
             (filter (\<lambda>(nm, r). map_of (family_cache st) nm = Some r) (family_cache st))
           \<longleftrightarrow> (\<forall>nm r. map_of (family_cache st) nm = Some r
                  \<longrightarrow> map_of (family_cache st') nm = Some r)"
    by (auto simp: list_all_iff dest: map_of_SomeD)
  show ?thesis unfolding extends_def p c ..
qed

lemma extends_refl: "extends st st"
  by (simp add: extends_iff)

lemma extends_trans: "extends a b \<Longrightarrow> extends b c \<Longrightarrow> extends a c"
  by (auto simp: extends_iff)

lemma extends_pool_lookup:
  "extends st st' \<Longrightarrow> pool_lookup (pool st) h = Some obj \<Longrightarrow> pool_lookup (pool st') h = Some obj"
  by (auto simp: extends_iff pool_lookup_mono)

lemma get_resource_extends: "get_resource k vs st = (obj, st1) \<Longrightarrow> extends st st1"
  by (auto simp: extends_iff dest: get_resource_handle)

lemma yield_packages_sound:
  "yield_packages self dirs st = (packages, st1) \<Longrightarrow>
     extends st st1
     \<and> (\<forall>p \<in> set packages. \<exists>ver.
           pool_lookup (pool st1)
             (''filesystem.package'',
              \<lparr>location = location self, name = name self, version = ver, ext = None,
               index = None\<rparr>) = Some p)"
proof (induction dirs arbitrary: st packages st1)
  case Nil
  then show ?case by (simp add: extends_refl)
next
  case (Cons v dirs)
  let ?vs = "\<lparr>location = location self, name = name self, version = Some v, ext = None,
               index = None\<rparr>"
  obtain p sta where g: "get_resource ''filesystem.package'' ?vs st = (p, sta)"
    by (cases "get_resource ''filesystem.package'' ?vs st")
  obtain ps stb where y: "yield_packages self dirs sta = (ps, stb)"
    by (cases "yield_packages self dirs sta")
  from Cons.prems g y have e: "packages = p # ps" "st1 = stb"
    by simp_all
  from Cons.IH [OF y] have ih: "extends sta stb"
    "\<forall>p \<in> set ps. \<exists>ver. pool_lookup (pool stb)
             (''filesystem.package'',
              \<lparr>location = location self, name = name self, version = ver, ext = None,
               index = None\<rparr>) = Some p"
    by simp_all
  from g have "pool_lookup (pool sta) (''filesystem.package'', ?vs) = Some p"
    by (auto dest: get_resource_handle)
  with ih(1) have "pool_lookup (pool stb) (''filesystem.package'', ?vs) = Some p"
    by (rule extends_pool_lookup)
  moreover from g ih(1) have "extends st stb"
    by (blast intro: extends_trans get_resource_extends)
  ultimately show ?case using ih(2) e by auto
qed

lemma iter_packages_sound:
  assumes "iter_packages w self st = Inr (packages, st1)"
  shows "extends st st1
     \<and> (\<forall>p \<in> set packages. \<exists>ver.
           pool_lookup (pool st1)
             (''filesystem.package'',
              \<lparr>location = location self, name = name self, version = ver, ext = None,
               index = None\<rparr>) = Some p)"
proof (cases "get_file w (family_path self) ''package''")
  case None
  with assms obtain dirs where "yield_packages self dirs st = (packages, st1)"
    by (auto simp: iter_packages_def split: sum.splits)
  then show ?thesis by (rule yield_packages_sound)
next
  case (Some ff)
  let ?vs = "\<lparr>location = location self, name = name self, version = None, ext = None,
               index = None\<rparr>"
  obtain p sta where g: "get_resource ''filesystem.package'' ?vs st = (p, sta)"
    by (cases "get_resource ''filesystem.package'' ?vs st")
  with Some assms have e: "packages = [p]" "st1 = sta"
    by (auto simp: iter_packages_def split: prod.splits)
  from g have "pool_lookup (pool sta) (''filesystem.package'', ?vs) = Some p"
    by (auto dest: get_resource_handle)
  with g e show ?thesis
    by (auto intro: get_resource_extends)
qed

lemma get_family_cached:
  "get_package_family w nm st = Inr (r, st1) \<Longrightarrow> map_of (family_cache st1) nm = Some r"
  by (auto simp: get_package_family_def get_family_def split: option.splits sum.splits)

lemma get_family_hit:
  "map_of (family_cache st) nm = Some r \<Longrightarrow> get_package_family w nm st = Inr (r, st)"
  by (simp add: get_package_family_def get_family_def)

lemma handle_of_cache_update [simp]:
  "handle_of (st\<lparr>family_cache := c\<rparr>) obj = handle_of st obj"
  by (simp add: handle_of_def)

lemma get_package_family_by_body:
  "memo_ok w st nm \<Longrightarrow>
   get_package_family w nm st =
     (case get_family_body w nm st of
        Inl e \<Rightarrow> Inl e
      | Inr (r, sta) \<Rightarrow>
          Inr (r, if map_of (family_cache st) nm = None
                  then sta\<lparr>family_cache := (nm, r) # family_cache sta\<rparr> else sta))"
  by (auto simp: memo_ok_def get_package_family_def get_family_def split: option.splits sum.splits)

lemma get_family_body_cache [simp]:
  "get_family_body w nm (st\<lparr>family_cache := c\<rparr>) =
     map_sum id (\<lambda>(r, sta). (r, sta\<lparr>family_cache := c\<rparr>)) (get_family_body w nm st)"
  by (auto simp: get_family_body_def get_resource_def Let_def split: option.splits)

lemma get_family_body_stable:
  assumes "get_family_body w nm st = Inr (r, sta)" and "extends sta stb"
  shows "get_family_body w nm stb = Inr (r, stb)"
proof -
  have k: "\<And>k vs obj. get_resource k vs st = (obj, sta) \<Longrightarrow> get_resource k vs stb = (obj, stb)"
    using assms(2) by (auto dest: get_resource_handle intro: get_resource_again extends_pool_lookup)
  from assms(1) show ?thesis
    by (auto simp: get_family_body_def Let_def split: if_splits option.splits prod.splits
        dest!: k)
qed

lemma memo_ok_initial: "family_cache st = [] \<Longrightarrow> memo_ok w st nm"
  by (simp add: memo_ok_def)

lemma get_family_body_extends: "get_family_body w nm st = Inr (r, sta) \<Longrightarrow> extends st sta"
  by (auto simp: get_family_body_def Let_def extends_refl split: if_splits option.splits prod.splits
      dest: get_resource_extends)

lemma extends_cache_cons:
  "map_of (family_cache st) nm = None \<Longrightarrow> extends st (st\<lparr>family_cache := (nm, r) # family_cache st\<rparr>)"
  by (auto simp: extends_iff)

lemma memo_ok_preserved:
  assumes ok: "\<And>n. memo_ok w st n" and call: "get_package_family w nm st = Inr (r, sta)"
  shows "memo_ok w sta n"
proof (cases "map_of (family_cache st) nm")
  case (Some r')
  with call have "sta = st"
    by (simp add: get_package_family_def get_family_def)
  with ok show ?thesis by simp
next
  case None
  with call obtain stb where b: "get_family_body w nm st = Inr (r, stb)"
    and sta: "sta = stb\<lparr>family_cache := (nm, r) # family_cache stb\<rparr>"
    by (auto simp: get_package_family_def get_family_def split: sum.splits)
  from b have e: "extends st stb" by (rule get_family_body_extends)
  have c: "family_cache stb = family_cache st"
    using b by (auto simp: get_family_body_def Let_def split: if_splits option.splits prod.splits
        dest: get_resource_handle)
  have e': "extends stb sta"
    unfolding sta using None c extends_cache_cons [of stb nm r] by simp
  show ?thesis
  proof (cases "n = nm")
    case True
    from get_family_body_stable [OF b e'] show ?thesis
      by (simp add: memo_ok_def True sta)
  next
    case False
    show ?thesis
    proof (cases "map_of (family_cache st) n")
      case None
      with False c show ?thesis by (simp add: memo_ok_def sta)
    next
      case (Some rn)
      with ok [of n] have "get_family_body w n st = Inr (rn, st)"
        by (simp add: memo_ok_def)
      from get_family_body_stable [OF this extends_trans [OF e e']]
      show ?thesis using Some False c by (simp add: memo_ok_def sta)
    qed
  qed
qed

subsection \<open>Helper facts on errors\<close>

lemma update_changelog_not_missing:
  "update_changelog maxlen fmt v \<noteq> Inl PackageMetadataError"
  by (auto simp: update_changelog_def split: pyval.splits option.splits)

lemma load_from_file_not_missing:
  "cb = None \<or> cb = Some (update_changelog maxlen) \<Longrightarrow>
     load_from_file w fp fmt cb \<noteq> Inl PackageMetadataError"
  by (auto simp: load_from_file_def update_changelog_not_missing split: sum.splits)

lemma load_old_formats_not_missing:
  "load_old_formats w self \<noteq> Inl PackageMetadataError"
proof -
  have a: "\<And>fp fmt. load_from_file w fp fmt None \<noteq> Inl PackageMetadataError"
    by (simp add: load_from_file_not_missing)
  have b: "\<And>fp fmt. load_from_file w fp fmt (Some (update_changelog (max_package_changelog_chars w)))
      \<noteq> Inl PackageMetadataError"
    by (simp add: load_from_file_not_missing)
  show ?thesis
    using a b by (auto simp: load_old_formats_def Let_def split: option.splits sum.splits)
qed

subsection \<open>Helper facts on loading\<close>

text \<open>
  \<^verbatim>\<open>_load_old_formats\<close> looks for the legacy files under \<^verbatim>\<open>self.uri\<close>, the path of the
  metadata file. When that file has neither \<^verbatim>\<open>release.yaml\<close> nor a directory \<^verbatim>\<open>.metadata\<close>
  under it (under a regular file there is nothing), the function returns \<^verbatim>\<open>None\<close>.
\<close>

lemma load_old_formats_under_file:
  assumes "package_filepath w self = Some fp"
    and "\<not> isfile w (os_path_join fp ''release.yaml'')"
    and "\<not> isdir w (os_path_join fp ''.metadata'')"
  shows "load_old_formats w self = Inr PNone"
  using assms by (simp add: load_old_formats_def uri_def Let_def)

lemma example_filepath_bar:
  "filepath_and_format example_env (example_resource ''bar'' (Some ''1.0''))
     = Some ([''repo'', ''bar'', ''1.0'', ''package.yaml''], Yaml)"
  "filepath_and_format example_env (example_resource ''bar'' (Some ''3.0''))
     = Some ([''repo'', ''bar'', ''3.0'', ''package.yaml''], Yaml)"
  by (simp_all add: filepath_and_format_def get_file_cases package_path_def os_path_join_def
      example_resource_def example_env_def example_files_def)

lemma example_load_old_formats_bar:
  "load_old_formats example_env (example_resource ''bar'' (Some ''1.0'')) = Inr PNone"
proof (rule load_old_formats_under_file)
  show "package_filepath example_env (example_resource ''bar'' (Some ''1.0''))
      = Some [''repo'', ''bar'', ''1.0'', ''package.yaml'']"
    by (simp add: package_filepath_def example_filepath_bar(1))
  show "\<not> isfile example_env
          (os_path_join [''repo'', ''bar'', ''1.0'', ''package.yaml''] ''release.yaml'')"
    by (simp add: example_env_def example_files_def os_path_join_def)
  show "\<not> isdir example_env
          (os_path_join [''repo'', ''bar'', ''1.0'', ''package.yaml''] ''.metadata'')"
    by (simp add: example_env_def example_dirs_def os_path_join_def)
qed

lemma example_load_bar:
  "load example_env (example_resource ''bar'' (Some ''1.0''))
     = Inr (PDict [(''name'', PStr ''bar''), (''version'', PStr ''1.0''),
                   (''changelog'', PStr ''new log'')])"
proof -
  have "load_file example_env [''repo'', ''bar'', ''1.0'', ''package.yaml''] Yaml
     = Inr (PDict [(''name'', PStr ''bar''), (''version'', PStr ''1.0''),
                   (''changelog'', PStr ''new log'')])"
    by (simp add: example_env_def example_load_file_def)
  then show ?thesis
    by (simp add: load_def example_filepath_bar(1) load_from_file_def dict_has_def
        example_load_old_formats_bar)
qed

subsection \<open>Helper facts on version overrides\<close>

lemma map_of_apply_overrides:
  "map_of (apply_overrides V ver ovs data) =
     foldl (++) (map_of data)
       (map (map_of \<circ> snd) (filter (\<lambda>(r, fragment). range_contains V r ver) ovs))"
  by (induction ovs arbitrary: data) (auto simp: dict_update_def merge_conv')

lemma foldl_map_add_dom: "m k \<noteq> None \<Longrightarrow> foldl (++) m ms k \<noteq> None"
  by (induction ms arbitrary: m) (auto simp: map_add_def split: option.splits)

lemma version_overrides_Some:
  fixes V :: "('ver, 'rng) version_lib"
  shows
  "version_overrides V d = (Inr (Some ovs) :: 'e error + ('rng \<times> document) list option) \<Longrightarrow>
     \<exists>kvs. map_of d ''version_overrides'' = Some (PDict kvs) \<and> kvs \<noteq> []
       \<and> validate_entries V kvs = Some ovs"
  by (auto simp: version_overrides_def validate_overrides_def
      split: option.splits pyval.splits if_splits)

lemma version_overrides_empty:
  fixes V :: "('ver, 'rng) version_lib"
  shows "map_of d ''version_overrides'' = Some (PDict []) \<Longrightarrow>
     version_overrides V d = (Inl SchemaError :: 'e error + ('rng \<times> document) list option)"
  by (simp add: version_overrides_def validate_overrides_def)

subsection \<open>Changelog truncation (C3)\<close>

text \<open>
  C3, as amended. With a budget \<open>maxlen \<ge> 0\<close>: a changelog text longer than
  \<open>maxlen + 3\<close> characters is cut to its first \<open>maxlen\<close> characters followed by the marker
  \<^verbatim>\<open>...\<close> (so the result has exactly \<open>maxlen + 3\<close> characters); a text of at most
  \<open>maxlen + 3\<close> characters is returned unchanged. In a yaml document the same holds for the
  field \<^verbatim>\<open>changelog\<close>, every other field being kept; a \<^verbatim>\<open>changelog\<close> given as a non-empty
  list of lines is first joined with newlines, and the rule applies to the joined text.
\<close>

theorem update_changelog_budget:
  fixes maxlen :: int
  assumes "0 \<le> maxlen"
  shows
    "(update_changelog maxlen Txt (PStr s) :: 'e error + pyval) =
        Inr (PStr (if int (length s) > maxlen + 3 then take (nat maxlen) s @ ''...'' else s))
     \<and> (int (length s) > maxlen + 3 \<longrightarrow> length (take (nat maxlen) s @ ''...'') = nat maxlen + 3)
     \<and> (map_of d ''changelog'' = Some (PStr s) \<longrightarrow>
          (\<exists>d'. (update_changelog maxlen Yaml (PDict d) :: 'e error + pyval) = Inr (PDict d')
             \<and> map_of d' ''changelog'' =
                 Some (PStr (if int (length s) > maxlen + 3 then take (nat maxlen) s @ ''...'' else s))
             \<and> (\<forall>k. k \<noteq> ''changelog'' \<longrightarrow> map_of d' k = map_of d k)))
     \<and> (map_of d ''changelog'' = Some (PList (map PStr (l # ls))) \<longrightarrow>
          (\<exists>d'. (update_changelog maxlen Yaml (PDict d) :: 'e error + pyval) = Inr (PDict d')
             \<and> map_of d' ''changelog'' =
                 Some (PStr (let t = l @ concat (map ((#) (CHR 0x0A)) ls)
                             in if int (length t) > maxlen + 3 then take (nat maxlen) t @ ''...''
                                else t))
             \<and> (\<forall>k. k \<noteq> ''changelog'' \<longrightarrow> map_of d' k = map_of d k)))"
proof (intro conjI impI)
  show "(update_changelog maxlen Txt (PStr s) :: 'e error + pyval) =
        Inr (PStr (if int (length s) > maxlen + 3 then take (nat maxlen) s @ ''...'' else s))"
    using assms by (simp add: update_changelog_def slice_to_nonneg)
next
  assume "int (length s) > maxlen + 3"
  with assms show "length (take (nat maxlen) s @ ''...'') = nat maxlen + 3"
    by simp
next
  assume h: "map_of d ''changelog'' = Some (PStr s)"
  show "\<exists>d'. (update_changelog maxlen Yaml (PDict d) :: 'e error + pyval) = Inr (PDict d')
             \<and> map_of d' ''changelog'' =
                 Some (PStr (if int (length s) > maxlen + 3 then take (nat maxlen) s @ ''...'' else s))
             \<and> (\<forall>k. k \<noteq> ''changelog'' \<longrightarrow> map_of d' k = map_of d k)"
  proof (cases "int (length s) > maxlen + 3")
    case True
    then have "s \<noteq> []" using assms by auto
    with True h assms show ?thesis
      by (simp add: update_changelog_def slice_to_nonneg map_of_dict_set)
  next
    case False
    with h assms show ?thesis
      by (cases "s = []") (simp_all add: update_changelog_def)
  qed
next
  assume h: "map_of d ''changelog'' = Some (PList (map PStr (l # ls)))"
  define t where "t = l @ concat (map ((#) (CHR 0x0A)) ls)"
  have j: "newline_join (PStr l # map PStr ls) = Some t"
    using newline_join_strs [of l ls] by (simp add: t_def)
  have r: "\<exists>d'. (update_changelog maxlen Yaml (PDict d) :: 'e error + pyval) = Inr (PDict d')
             \<and> map_of d' ''changelog'' =
                 Some (PStr (if int (length t) > maxlen + 3 then take (nat maxlen) t @ ''...''
                             else t))
             \<and> (\<forall>k. k \<noteq> ''changelog'' \<longrightarrow> map_of d' k = map_of d k)"
  proof (cases "int (length t) > maxlen + 3")
    case True
    with h j assms show ?thesis
      by (simp add: update_changelog_def slice_to_nonneg map_of_dict_set)
  next
    case False
    with h j assms show ?thesis
      by (simp add: update_changelog_def map_of_dict_set)
  qed
  show "\<exists>d'. (update_changelog maxlen Yaml (PDict d) :: 'e error + pyval) = Inr (PDict d')
             \<and> map_of d' ''changelog'' =
                 Some (PStr (let t = l @ concat (map ((#) (CHR 0x0A)) ls)
                             in if int (length t) > maxlen + 3 then take (nat maxlen) t @ ''...''
                                else t))
             \<and> (\<forall>k. k \<noteq> ''changelog'' \<longrightarrow> map_of d' k = map_of d k)"
    using r unfolding Let_def t_def .
qed

theorem update_changelog_budget_witness:
  "(0::int) \<le> 5
   \<and> (update_changelog 5 Txt (PStr ''0123456789'') :: unit error + pyval) = Inr (PStr ''01234...'')
   \<and> map_of [(''name'', PStr ''foo''), (''changelog'', PList [PStr ''0123'', PStr ''4567''])]
        ''changelog'' = Some (PList (map PStr [''0123'', ''4567'']))
   \<and> (\<exists>d'. (update_changelog 5 Yaml
               (PDict [(''name'', PStr ''foo''), (''changelog'', PList [PStr ''0123'', PStr ''4567''])])
             :: unit error + pyval) = Inr (PDict d')
          \<and> map_of d' ''changelog'' = Some (PStr (''0123'' @ [CHR 0x0A] @ ''...''))
          \<and> map_of d' ''name'' = Some (PStr ''foo''))"
proof -
  have b: "(0::int) \<le> 5" by simp
  note t = update_changelog_budget [OF b, of "''0123456789''"
      "[(''name'', PStr ''foo''), (''changelog'', PList [PStr ''0123'', PStr ''4567''])]"
      "''0123''" "[''4567'']", where ?'e = unit]
  from t have "(update_changelog 5 Txt (PStr ''0123456789'') :: unit error + pyval)
      = Inr (PStr ''01234...'')"
    by simp
  moreover from t obtain d' where
    "(update_changelog 5 Yaml
        (PDict [(''name'', PStr ''foo''), (''changelog'', PList [PStr ''0123'', PStr ''4567''])])
      :: unit error + pyval) = Inr (PDict d')"
    "map_of d' ''changelog'' = Some (PStr (''0123'' @ [CHR 0x0A] @ ''...''))"
    "\<forall>k. k \<noteq> ''changelog'' \<longrightarrow> map_of d' k =
        map_of [(''name'', PStr ''foo''), (''changelog'', PList [PStr ''0123'', PStr ''4567''])] k"
    by (auto simp: Let_def)
  moreover from this(3) have "map_of d' ''name'' = Some (PStr ''foo'')"
    by simp
  ultimately show ?thesis by auto
qed

text \<open>
  The claim as stated fails: with a budget of 2 the text \<^verbatim>\<open>abc\<close>, whose length exceeds the
  budget, is returned unchanged and not cut to \<^verbatim>\<open>ab...\<close>.
\<close>

theorem update_changelog_over_budget_counterexample:
  "int (length ''abc'') > 2
   \<and> (update_changelog 2 Txt (PStr ''abc'') :: unit error + pyval) = Inr (PStr ''abc'')
   \<and> (update_changelog 2 Txt (PStr ''abc'') :: unit error + pyval)
        \<noteq> Inr (PStr (take 2 ''abc'' @ ''...''))"
  by (simp add: update_changelog_def)

subsection \<open>Last release time (C8)\<close>

text \<open>
  C8. \<^verbatim>\<open>get_last_release_time\<close> of a split family and of a combined family never raises:
  it returns the modification time of the family directory \<^verbatim>\<open>location/name\<close> (split) or
  of the family file \<^verbatim>\<open>location/name.ext\<close> (combined) when the stat succeeds, and 0 when
  the stat fails.
\<close>

theorem get_last_release_time_never_raises:
  "(\<exists>t. get_last_release_time w self = Inr t)
   \<and> (\<forall>st. os_stat w (os_path_join (location self) (name self)) = Some st \<longrightarrow>
         get_last_release_time w self = Inr (st_mtime st))
   \<and> (os_stat w (os_path_join (location self) (name self)) = None \<longrightarrow>
         get_last_release_time w self = Inr 0)
   \<and> (\<exists>t. combined_get_last_release_time w self = Inr t)
   \<and> (\<forall>st e. ext self = Some e
          \<and> os_stat w (os_path_join (location self) (name self @ ''.'' @ e)) = Some st \<longrightarrow>
         combined_get_last_release_time w self = Inr (st_mtime st))
   \<and> (os_stat w (combined_family_filepath self) = None \<longrightarrow>
         combined_get_last_release_time w self = Inr 0)"
  by (auto simp: get_last_release_time_def combined_get_last_release_time_def getmtime_def
      combined_family_filepath_def Let_def split: option.splits)

theorem get_last_release_time_never_raises_witness:
  "os_stat example_env [''repo'', ''foo''] = Some \<lparr>st_ino = 7, st_mtime = 1400000000\<rparr>
   \<and> get_last_release_time example_env (example_resource ''foo'' None) = Inr 1400000000
   \<and> os_stat example_env [''repo'', ''nothing''] = None
   \<and> get_last_release_time example_env (example_resource ''nothing'' None) = Inr 0
   \<and> os_stat example_env [''repo'', ''qux.yaml''] = Some \<lparr>st_ino = 7, st_mtime = 1400000000\<rparr>
   \<and> combined_get_last_release_time example_env
        ((example_resource ''qux'' None)\<lparr>ext := Some ''yaml''\<rparr>) = Inr 1400000000
   \<and> os_stat example_env [''repo'', ''qux.py''] = None
   \<and> combined_get_last_release_time example_env
        ((example_resource ''qux'' None)\<lparr>ext := Some ''py''\<rparr>) = Inr 0"
proof -
  have s1: "os_stat example_env [''repo'', ''foo''] = Some \<lparr>st_ino = 7, st_mtime = 1400000000\<rparr>"
    and s2: "os_stat example_env [''repo'', ''nothing''] = None"
    and s3: "os_stat example_env [''repo'', ''qux.yaml''] = Some \<lparr>st_ino = 7, st_mtime = 1400000000\<rparr>"
    and s4: "os_stat example_env [''repo'', ''qux.py''] = None"
    by (simp_all add: example_env_def example_files_def example_dirs_def)
  note t1 = get_last_release_time_never_raises [of example_env "example_resource ''foo'' None"]
  note t2 = get_last_release_time_never_raises [of example_env "example_resource ''nothing'' None"]
  note t3 = get_last_release_time_never_raises
    [of example_env "(example_resource ''qux'' None)\<lparr>ext := Some ''yaml''\<rparr>"]
  note t4 = get_last_release_time_never_raises
    [of example_env "(example_resource ''qux'' None)\<lparr>ext := Some ''py''\<rparr>"]
  have "get_last_release_time example_env (example_resource ''foo'' None) = Inr 1400000000"
    using t1 s1 by (simp add: example_resource_def os_path_join_def)
  moreover have "get_last_release_time example_env (example_resource ''nothing'' None) = Inr 0"
    using t2 s2 by (simp add: example_resource_def os_path_join_def)
  moreover have "combined_get_last_release_time example_env
        ((example_resource ''qux'' None)\<lparr>ext := Some ''yaml''\<rparr>) = Inr 1400000000"
    using t3 s3 by (simp add: example_resource_def os_path_join_def)
  moreover have "combined_get_last_release_time example_env
        ((example_resource ''qux'' None)\<lparr>ext := Some ''py''\<rparr>) = Inr 0"
    using t4 s4 by (simp add: example_resource_def os_path_join_def combined_family_filepath_def)
  ultimately show ?thesis using s1 s2 s3 s4 by simp
qed

subsection \<open>The unversioned package of a split family (C4)\<close>

text \<open>
  C4. When the family directory of a split family holds \<^verbatim>\<open>package.py\<close> or
  \<^verbatim>\<open>package.yaml\<close>, \<^verbatim>\<open>iter_packages\<close> yields exactly one package, the resource made for
  the handle without a version, and no package of a version subdirectory. The probe comes
  before any scan of the directory: the result is the same whatever \<^verbatim>\<open>os.listdir\<close>,
  \<^verbatim>\<open>os.stat\<close> and \<^verbatim>\<open>os.path.isdir\<close> answer, also when they fail.
\<close>

theorem iter_packages_unversioned_first:
  assumes "isfile w (os_path_join (family_path self) ''package.py'')
           \<or> isfile w (os_path_join (family_path self) ''package.yaml'')"
  shows "\<exists>package st1.
           iter_packages w self st = Inr ([package], st1)
           \<and> handle_of st1 package =
               Some (''filesystem.package'',
                     \<lparr>location = location self, name = name self, version = None, ext = None,
                      index = None\<rparr>)
           \<and> iter_packages (w\<lparr>listdir := l, os_stat := s, isdir := d\<rparr>) self st
               = Inr ([package], st1)"
proof -
  obtain package st1 where g:
    "get_resource ''filesystem.package''
       \<lparr>location = location self, name = name self, version = None, ext = None, index = None\<rparr> st
     = (package, st1)"
    by (cases "get_resource ''filesystem.package''
       \<lparr>location = location self, name = name self, version = None, ext = None, index = None\<rparr> st")
  from assms have f: "get_file w (family_path self) ''package'' \<noteq> None"
    by (auto simp: get_file_cases split: if_splits)
  from assms have f':
    "get_file (w\<lparr>listdir := l, os_stat := s, isdir := d\<rparr>) (family_path self) ''package'' \<noteq> None"
    by (auto simp: get_file_cases split: if_splits)
  from f g have "iter_packages w self st = Inr ([package], st1)"
    by (auto simp: iter_packages_def)
  moreover from f' g
  have "iter_packages (w\<lparr>listdir := l, os_stat := s, isdir := d\<rparr>) self st = Inr ([package], st1)"
    by (auto simp: iter_packages_def)
  moreover from g have "handle_of st1 package =
               Some (''filesystem.package'',
                     \<lparr>location = location self, name = name self, version = None, ext = None,
                      index = None\<rparr>)"
    by (simp add: get_resource_handle)
  ultimately show ?thesis by blast
qed

theorem iter_packages_unversioned_first_witness:
  "isfile example_env (os_path_join (family_path (example_resource ''foo'' None)) ''package.py'')
   \<and> isdir example_env (os_path_join (family_path (example_resource ''foo'' None)) ''1.0'')
   \<and> (\<exists>package st1.
         iter_packages example_env (example_resource ''foo'' None) example_state
           = Inr ([package], st1)
         \<and> handle_of st1 package = Some (''filesystem.package'', example_resource ''foo'' None))"
proof -
  have h: "isfile example_env
             (os_path_join (family_path (example_resource ''foo'' None)) ''package.py'')"
    by (simp add: example_env_def example_files_def example_resource_def family_path_def
        os_path_join_def)
  have d: "isdir example_env
             (os_path_join (family_path (example_resource ''foo'' None)) ''1.0'')"
    by (simp add: example_env_def example_dirs_def example_resource_def family_path_def
        os_path_join_def)
  from iter_packages_unversioned_first
    [where w = example_env and self = "example_resource ''foo'' None" and st = example_state
       and l = "listdir example_env" and s = "os_stat example_env" and d = "isdir example_env",
     OF disjI1 [OF h]]
  have "\<exists>package st1.
         iter_packages example_env (example_resource ''foo'' None) example_state
           = Inr ([package], st1)
         \<and> handle_of st1 package = Some (''filesystem.package'', example_resource ''foo'' None)"
    by (auto simp: example_resource_def)
  with h d show ?thesis by blast
qed

subsection \<open>Looking a family up by name (C5)\<close>

text \<open>
  C5. \<^verbatim>\<open>get_package_family(name)\<close>, in a state whose memo table agrees with the filesystem
  at the name (\<^const>\<open>memo_ok\<close>: no entry yet, or the entry an earlier call made on this
  filesystem): a name that fails the validity predicate raises the invalid-name error; for a valid name
  the result is the split family of that name when \<^verbatim>\<open>location/name\<close> is a directory,
  whether or not a file \<^verbatim>\<open>name.py\<close> or \<^verbatim>\<open>name.yaml\<close> exists; otherwise the combined family
  with extension \<^verbatim>\<open>py\<close> when \<^verbatim>\<open>name.py\<close> is a file; otherwise the combined family with
  extension \<^verbatim>\<open>yaml\<close> when \<^verbatim>\<open>name.yaml\<close> is a file; otherwise \<open>None\<close>, and no error.
\<close>

theorem get_package_family_resolution:
  assumes ok: "memo_ok w st nm"
  shows
    "(\<not> is_valid_package_name w nm \<longrightarrow> get_package_family w nm st = Inl InvalidName)
     \<and> (is_valid_package_name w nm \<and> isdir w (os_path_join (repository_location w) nm) \<longrightarrow>
          (\<exists>family st1. get_package_family w nm st = Inr (Some family, st1)
             \<and> handle_of st1 family =
                 Some (''filesystem.family'',
                       \<lparr>location = repository_location w, name = nm, version = None,
                        ext = None, index = None\<rparr>)))
     \<and> (is_valid_package_name w nm \<and> \<not> isdir w (os_path_join (repository_location w) nm)
          \<and> isfile w (os_path_join (repository_location w) (nm @ ''.py'')) \<longrightarrow>
          (\<exists>family st1. get_package_family w nm st = Inr (Some family, st1)
             \<and> handle_of st1 family =
                 Some (''filesystem.family.combined'',
                       \<lparr>location = repository_location w, name = nm, version = None,
                        ext = Some ''py'', index = None\<rparr>)))
     \<and> (is_valid_package_name w nm \<and> \<not> isdir w (os_path_join (repository_location w) nm)
          \<and> \<not> isfile w (os_path_join (repository_location w) (nm @ ''.py''))
          \<and> isfile w (os_path_join (repository_location w) (nm @ ''.yaml'')) \<longrightarrow>
          (\<exists>family st1. get_package_family w nm st = Inr (Some family, st1)
             \<and> handle_of st1 family =
                 Some (''filesystem.family.combined'',
                       \<lparr>location = repository_location w, name = nm, version = None,
                        ext = Some ''yaml'', index = None\<rparr>)))
     \<and> (is_valid_package_name w nm \<and> \<not> isdir w (os_path_join (repository_location w) nm)
          \<and> \<not> isfile w (os_path_join (repository_location w) (nm @ ''.py''))
          \<and> \<not> isfile w (os_path_join (repository_location w) (nm @ ''.yaml'')) \<longrightarrow>
          (\<exists>st1. get_package_family w nm st = Inr (None, st1)))"
proof (intro conjI impI)
  note gp = get_package_family_by_body [OF ok]
  {
    assume "\<not> is_valid_package_name w nm"
    then show "get_package_family w nm st = Inl InvalidName"
      by (simp add: gp get_family_body_def)
  next
    let ?vs = "\<lparr>location = repository_location w, name = nm, version = None,
                 ext = None, index = None\<rparr>"
    assume a: "is_valid_package_name w nm \<and> isdir w (os_path_join (repository_location w) nm)"
    obtain family sta where g: "get_resource ''filesystem.family'' ?vs st = (family, sta)"
      by (cases "get_resource ''filesystem.family'' ?vs st")
    with a have body: "get_family_body w nm st = Inr (Some family, sta)"
      by (simp add: get_family_body_def)
    from g have "handle_of sta family = Some (''filesystem.family'', ?vs)"
      by (simp add: get_resource_handle)
    then show "\<exists>family st1. get_package_family w nm st = Inr (Some family, st1)
               \<and> handle_of st1 family = Some (''filesystem.family'', ?vs)"
      by (simp add: gp body)
  next
    let ?vs = "\<lparr>location = repository_location w, name = nm, version = None,
                 ext = Some ''py'', index = None\<rparr>"
    assume a: "is_valid_package_name w nm \<and> \<not> isdir w (os_path_join (repository_location w) nm)
            \<and> isfile w (os_path_join (repository_location w) (nm @ ''.py''))"
    obtain family sta where g: "get_resource ''filesystem.family.combined'' ?vs st = (family, sta)"
      by (cases "get_resource ''filesystem.family.combined'' ?vs st")
    with a have body: "get_family_body w nm st = Inr (Some family, sta)"
      by (simp add: get_family_body_def get_file_cases)
    from g have "handle_of sta family = Some (''filesystem.family.combined'', ?vs)"
      by (simp add: get_resource_handle)
    then show "\<exists>family st1. get_package_family w nm st = Inr (Some family, st1)
               \<and> handle_of st1 family = Some (''filesystem.family.combined'', ?vs)"
      by (simp add: gp body)
  next
    let ?vs = "\<lparr>location = repository_location w, name = nm, version = None,
                 ext = Some ''yaml'', index = None\<rparr>"
    assume a: "is_valid_package_name w nm \<and> \<not> isdir w (os_path_join (repository_location w) nm)
            \<and> \<not> isfile w (os_path_join (repository_location w) (nm @ ''.py''))
            \<and> isfile w (os_path_join (repository_location w) (nm @ ''.yaml''))"
    obtain family sta where g: "get_resource ''filesystem.family.combined'' ?vs st = (family, sta)"
      by (cases "get_resource ''filesystem.family.combined'' ?vs st")
    with a have body: "get_family_body w nm st = Inr (Some family, sta)"
      by (simp add: get_family_body_def get_file_cases)
    from g have "handle_of sta family = Some (''filesystem.family.combined'', ?vs)"
      by (simp add: get_resource_handle)
    then show "\<exists>family st1. get_package_family w nm st = Inr (Some family, st1)
               \<and> handle_of st1 family = Some (''filesystem.family.combined'', ?vs)"
      by (simp add: gp body)
  next
    assume "is_valid_package_name w nm \<and> \<not> isdir w (os_path_join (repository_location w) nm)
            \<and> \<not> isfile w (os_path_join (repository_location w) (nm @ ''.py''))
            \<and> \<not> isfile w (os_path_join (repository_location w) (nm @ ''.yaml''))"
    then show "\<exists>st1. get_package_family w nm st = Inr (None, st1)"
      by (simp add: gp get_family_body_def get_file_cases)
  }
qed

theorem get_package_family_resolution_witness:
  "memo_ok example_env example_state ''foo''
   \<and> \<not> is_valid_package_name example_env ''a/b''
   \<and> get_package_family example_env ''a/b'' example_state = Inl InvalidName
   \<and> isdir example_env [''repo'', ''foo''] \<and> isfile example_env [''repo'', ''foo.yaml'']
   \<and> (\<exists>family st1. get_package_family example_env ''foo'' example_state = Inr (Some family, st1)
        \<and> handle_of st1 family = Some (''filesystem.family'', example_resource ''foo'' None))
   \<and> isfile example_env [''repo'', ''baz.py''] \<and> isfile example_env [''repo'', ''baz.yaml'']
   \<and> (\<exists>family st1. get_package_family example_env ''baz'' example_state = Inr (Some family, st1)
        \<and> handle_of st1 family =
            Some (''filesystem.family.combined'',
                  (example_resource ''baz'' None)\<lparr>ext := Some ''py''\<rparr>))
   \<and> (\<exists>family st1. get_package_family example_env ''qux'' example_state = Inr (Some family, st1)
        \<and> handle_of st1 family =
            Some (''filesystem.family.combined'',
                  (example_resource ''qux'' None)\<lparr>ext := Some ''yaml''\<rparr>))
   \<and> (\<exists>st1. get_package_family example_env ''nothing'' example_state = Inr (None, st1))
   \<and> map_of (family_cache example_state_looked_up) ''foo'' = Some (Some 0)
   \<and> memo_ok example_env example_state_looked_up ''foo''
   \<and> (\<exists>family st1.
         get_package_family example_env ''foo'' example_state_looked_up = Inr (Some family, st1)
         \<and> handle_of st1 family = Some (''filesystem.family'', example_resource ''foo'' None))"
proof -
  have m: "\<And>nm. memo_ok example_env example_state nm"
    by (simp add: memo_ok_initial example_state_def)
  have c: "map_of (family_cache example_state_looked_up) ''foo'' = Some (Some 0)"
    by (simp add: example_state_looked_up_def)
  have h: "memo_ok example_env example_state_looked_up ''foo''"
    by (simp add: memo_ok_def get_family_body_def get_resource_def os_path_join_def
        example_state_looked_up_def example_state_family_def example_env_def example_dirs_def)
  have v: "\<not> is_valid_package_name example_env ''a/b''"
    "is_valid_package_name example_env ''foo''"
    "is_valid_package_name example_env ''baz''"
    "is_valid_package_name example_env ''qux''"
    "is_valid_package_name example_env ''nothing''"
    and loc: "repository_location example_env = [''repo'']"
    by (simp_all add: example_env_def)
  have f: "isdir example_env [''repo'', ''foo'']" "isfile example_env [''repo'', ''foo.yaml'']"
    "isfile example_env [''repo'', ''baz.py'']" "isfile example_env [''repo'', ''baz.yaml'']"
    "\<not> isdir example_env [''repo'', ''baz'']"
    "\<not> isdir example_env [''repo'', ''qux'']" "\<not> isfile example_env [''repo'', ''qux.py'']"
    "isfile example_env [''repo'', ''qux.yaml'']"
    "\<not> isdir example_env [''repo'', ''nothing'']"
    "\<not> isfile example_env [''repo'', ''nothing.py'']"
    "\<not> isfile example_env [''repo'', ''nothing.yaml'']"
    by (simp_all add: example_env_def example_files_def example_dirs_def)
  note t = get_package_family_resolution [OF m]
  have "get_package_family example_env ''a/b'' example_state = Inl InvalidName"
    using t [of "''a/b''"] v by blast
  moreover have "\<exists>family st1. get_package_family example_env ''foo'' example_state
        = Inr (Some family, st1)
        \<and> handle_of st1 family = Some (''filesystem.family'', example_resource ''foo'' None)"
    using t [of "''foo''"] v f by (simp add: loc os_path_join_def example_resource_def)
  moreover have "\<exists>family st1. get_package_family example_env ''baz'' example_state
        = Inr (Some family, st1)
        \<and> handle_of st1 family =
            Some (''filesystem.family.combined'',
                  (example_resource ''baz'' None)\<lparr>ext := Some ''py''\<rparr>)"
    using t [of "''baz''"] v f by (simp add: loc os_path_join_def example_resource_def)
  moreover have "\<exists>family st1. get_package_family example_env ''qux'' example_state
        = Inr (Some family, st1)
        \<and> handle_of st1 family =
            Some (''filesystem.family.combined'',
                  (example_resource ''qux'' None)\<lparr>ext := Some ''yaml''\<rparr>)"
    using t [of "''qux''"] v f by (simp add: loc os_path_join_def example_resource_def)
  moreover have "\<exists>st1. get_package_family example_env ''nothing'' example_state = Inr (None, st1)"
    using t [of "''nothing''"] v f by (simp add: loc os_path_join_def)
  moreover have "\<exists>family st1.
         get_package_family example_env ''foo'' example_state_looked_up = Inr (Some family, st1)
         \<and> handle_of st1 family = Some (''filesystem.family'', example_resource ''foo'' None)"
    using get_package_family_resolution [OF h] v f
    by (simp add: loc os_path_join_def example_resource_def)
  ultimately show ?thesis using m v f c h by simp
qed

subsection \<open>Resolving a package and loading its document (C6)\<close>

text \<open>
  C6. A split package resource is resolved without looking at the disk: the pool gives
  the object for its handle in every state, and the attributes \<^verbatim>\<open>filepath\<close> and
  \<^verbatim>\<open>state_handle\<close> are \<open>None\<close>, not an error, when no metadata file exists. Loading the
  document raises the metadata-missing error exactly when neither \<^verbatim>\<open>package.py\<close> nor
  \<^verbatim>\<open>package.yaml\<close> is a file under the package path.
\<close>

theorem load_metadata_missing_iff:
  "(\<exists>obj st1. get_resource ''filesystem.package'' self st = (obj, st1)
       \<and> handle_of st1 obj = Some (''filesystem.package'', self))
   \<and> ((load w self = Inl PackageMetadataError) =
        (\<not> isfile w (os_path_join (package_path self) ''package.py'')
         \<and> \<not> isfile w (os_path_join (package_path self) ''package.yaml'')))
   \<and> (\<not> isfile w (os_path_join (package_path self) ''package.py'')
        \<and> \<not> isfile w (os_path_join (package_path self) ''package.yaml'') \<longrightarrow>
        package_filepath w self = None \<and> state_handle w self = Inr None)"
proof (intro conjI impI)
  obtain obj st1 where g: "get_resource ''filesystem.package'' self st = (obj, st1)"
    by (cases "get_resource ''filesystem.package'' self st")
  then show "\<exists>obj st1. get_resource ''filesystem.package'' self st = (obj, st1)
       \<and> handle_of st1 obj = Some (''filesystem.package'', self)"
    by (auto simp: get_resource_handle)
next
  show "(load w self = Inl PackageMetadataError) =
        (\<not> isfile w (os_path_join (package_path self) ''package.py'')
         \<and> \<not> isfile w (os_path_join (package_path self) ''package.yaml''))"
  proof (cases "filepath_and_format w self")
    case None
    then show ?thesis
      by (auto simp: load_def filepath_and_format_def get_file_cases split: if_splits)
  next
    case (Some ff)
    obtain fp fmt where ff: "ff = (fp, fmt)" by (cases ff)
    have found: "isfile w (os_path_join (package_path self) ''package.py'')
         \<or> isfile w (os_path_join (package_path self) ''package.yaml'')"
      using Some by (auto simp: filepath_and_format_def get_file_cases split: if_splits)
    have "load_from_file w fp fmt None \<noteq> Inl PackageMetadataError"
      by (simp add: load_from_file_not_missing)
    moreover have "py_update x y \<noteq> (Inl PackageMetadataError :: 'a error + pyval)" for x y
      by (cases "(x, y)" rule: py_update.cases) simp_all
    ultimately have "load w self \<noteq> Inl PackageMetadataError"
      using Some ff load_old_formats_not_missing [of w self]
      by (auto simp: load_def split: sum.splits option.splits bool.splits)
    with found show ?thesis by blast
  qed
next
  assume "\<not> isfile w (os_path_join (package_path self) ''package.py'')
        \<and> \<not> isfile w (os_path_join (package_path self) ''package.yaml'')"
  then show "package_filepath w self = None"
    by (simp add: package_filepath_def filepath_and_format_def get_file_cases)
  then show "state_handle w self = Inr None"
    by (simp add: state_handle_def)
qed

theorem load_metadata_missing_iff_witness:
  "\<not> isfile example_env
       (os_path_join (package_path (example_resource ''bar'' (Some ''2.0''))) ''package.py'')
   \<and> \<not> isfile example_env
       (os_path_join (package_path (example_resource ''bar'' (Some ''2.0''))) ''package.yaml'')
   \<and> load example_env (example_resource ''bar'' (Some ''2.0'')) = Inl PackageMetadataError
   \<and> package_filepath example_env (example_resource ''bar'' (Some ''2.0'')) = None
   \<and> state_handle example_env (example_resource ''bar'' (Some ''2.0'')) = Inr None
   \<and> isfile example_env
       (os_path_join (package_path (example_resource ''bar'' (Some ''3.0''))) ''package.yaml'')
   \<and> load example_env (example_resource ''bar'' (Some ''3.0'')) \<noteq> Inl PackageMetadataError"
proof -
  have a: "\<not> isfile example_env
       (os_path_join (package_path (example_resource ''bar'' (Some ''2.0''))) ''package.py'')"
    "\<not> isfile example_env
       (os_path_join (package_path (example_resource ''bar'' (Some ''2.0''))) ''package.yaml'')"
    "isfile example_env
       (os_path_join (package_path (example_resource ''bar'' (Some ''3.0''))) ''package.yaml'')"
    by (simp_all add: example_env_def example_files_def example_resource_def package_path_def
        os_path_join_def)
  note t2 = load_metadata_missing_iff
    [of "example_resource ''bar'' (Some ''2.0'')" example_state example_env]
  note t3 = load_metadata_missing_iff
    [of "example_resource ''bar'' (Some ''3.0'')" example_state example_env]
  from t2 a have "load example_env (example_resource ''bar'' (Some ''2.0''))
        = Inl PackageMetadataError
      \<and> package_filepath example_env (example_resource ''bar'' (Some ''2.0'')) = None
      \<and> state_handle example_env (example_resource ''bar'' (Some ''2.0'')) = Inr None"
    by blast
  moreover from t3 a
  have "load example_env (example_resource ''bar'' (Some ''3.0'')) \<noteq> Inl PackageMetadataError"
    by blast
  ultimately show ?thesis using a by blast
qed

subsection \<open>Identity of resource objects (C7)\<close>

text \<open>
  C7. In every later state of the process (a state that \<^const>\<open>extends\<close> the one a call
  left), a resource lookup with the same key and variables returns the same object and
  makes nothing new; a second \<^verbatim>\<open>get_package_family\<close> with the same name returns the
  identical result, whatever the filesystem is by then; and for every package that
  \<^verbatim>\<open>iter_packages\<close> of a split family yields, the package's \<^verbatim>\<open>parent\<close> is the identical
  family object, and the \<^verbatim>\<open>parent\<close> of each of its variants is the identical package
  object.
\<close>

theorem resource_identity:
  "(get_resource k vs st = (obj, sta) \<and> extends sta stb \<longrightarrow>
      get_resource k vs stb = (obj, stb))
   \<and> (get_package_family w nm st = Inr (r, sta) \<and> extends sta stb \<longrightarrow>
      get_package_family w' nm stb = Inr (r, stb))
   \<and> (get_resource ''filesystem.family'' fv st = (family, sta) \<and> extends sta stb
        \<and> ext fv = None \<and> index fv = None \<and> version fv = None
        \<and> iter_packages w fv stb = Inr (packages, stc) \<and> package \<in> set packages \<longrightarrow>
      (\<exists>pv. handle_of stc package = Some (''filesystem.package'', pv)
         \<and> package_parent pv stc = (family, stc)
         \<and> (\<forall>i. variant_parent (pv\<lparr>index := i\<rparr>) stc = (package, stc))))"
proof (intro conjI impI)
  assume "get_resource k vs st = (obj, sta) \<and> extends sta stb"
  then have "pool_lookup (pool stb) (k, vs) = Some obj"
    by (auto dest: get_resource_handle intro: extends_pool_lookup)
  then show "get_resource k vs stb = (obj, stb)"
    by (rule get_resource_again)
next
  assume a: "get_package_family w nm st = Inr (r, sta) \<and> extends sta stb"
  then have "map_of (family_cache sta) nm = Some r"
    by (auto dest: get_family_cached)
  with a have "map_of (family_cache stb) nm = Some r"
    by (simp add: extends_iff)
  then show "get_package_family w' nm stb = Inr (r, stb)"
    by (rule get_family_hit)
next
  assume a: "get_resource ''filesystem.family'' fv st = (family, sta) \<and> extends sta stb
        \<and> ext fv = None \<and> index fv = None \<and> version fv = None
        \<and> iter_packages w fv stb = Inr (packages, stc) \<and> package \<in> set packages"
  then have it: "iter_packages w fv stb = Inr (packages, stc)" by simp
  from iter_packages_sound [OF it] a obtain ver where
    e23: "extends stb stc" and
    pl: "pool_lookup (pool stc)
           (''filesystem.package'',
            \<lparr>location = location fv, name = name fv, version = ver, ext = None, index = None\<rparr>)
         = Some package"
    by blast
  let ?pv = "\<lparr>location = location fv, name = name fv, version = ver, ext = None, index = None\<rparr>"
  from a have fvrec: "fv = \<lparr>location = location fv, name = name fv, version = None, ext = None,
      index = None\<rparr>"
    by (cases fv) simp
  from a have "pool_lookup (pool sta) (''filesystem.family'', fv) = Some family"
    by (auto dest: get_resource_handle)
  with a e23 have fl: "pool_lookup (pool stc) (''filesystem.family'', fv) = Some family"
    by (blast intro: extends_pool_lookup)
  from pl have "handle_of stc package = Some (''filesystem.package'', ?pv)"
    by (auto simp: handle_of_def dest: pool_lookup_Some)
  moreover have "package_parent ?pv stc = (family, stc)"
    using fl fvrec by (simp add: package_parent_def get_resource_again)
  moreover have "\<forall>i. variant_parent (?pv\<lparr>index := i\<rparr>) stc = (package, stc)"
    using pl by (simp add: variant_parent_def get_resource_again)
  ultimately show "\<exists>pv. handle_of stc package = Some (''filesystem.package'', pv)
         \<and> package_parent pv stc = (family, stc)
         \<and> (\<forall>i. variant_parent (pv\<lparr>index := i\<rparr>) stc = (package, stc))"
    by blast
qed

theorem resource_identity_witness:
  "get_resource ''filesystem.family'' (example_resource ''foo'' None) example_state
     = (0, example_state_family)
   \<and> extends example_state_family example_state_looked_up
   \<and> get_resource ''filesystem.family'' (example_resource ''foo'' None) example_state_looked_up
     = (0, example_state_looked_up)
   \<and> get_package_family example_env ''foo'' example_state = Inr (Some 0, example_state_looked_up)
   \<and> extends example_state_looked_up example_state_listed
   \<and> get_package_family (example_env\<lparr>isdir := \<lambda>p. False\<rparr>) ''foo'' example_state_listed
     = Inr (Some 0, example_state_listed)
   \<and> iter_packages example_env (example_resource ''foo'' None) example_state_looked_up
     = Inr ([1], example_state_listed)
   \<and> (\<exists>pv. handle_of example_state_listed 1 = Some (''filesystem.package'', pv)
        \<and> package_parent pv example_state_listed = (0, example_state_listed)
        \<and> (\<forall>i. variant_parent (pv\<lparr>index := i\<rparr>) example_state_listed
               = (1, example_state_listed)))"
proof -
  have g: "get_resource ''filesystem.family'' (example_resource ''foo'' None) example_state
     = (0, example_state_family)"
    by (simp add: get_resource_def example_state_def example_state_family_def
        example_resource_def)
  have e1: "extends example_state_family example_state_looked_up"
    by (simp add: extends_def example_state_looked_up_def example_state_family_def)
  have e2: "extends example_state_looked_up example_state_listed"
    by (simp add: extends_def example_state_listed_def example_state_looked_up_def
        example_state_family_def)
  have f: "get_package_family example_env ''foo'' example_state
     = Inr (Some 0, example_state_looked_up)"
    by (simp add: get_package_family_def get_family_def get_family_body_def get_resource_def
        example_state_def example_state_looked_up_def example_state_family_def example_env_def
        example_dirs_def os_path_join_def)
  have it: "iter_packages example_env (example_resource ''foo'' None) example_state_looked_up
     = Inr ([1], example_state_listed)"
    by (simp add: iter_packages_def get_file_cases family_path_def os_path_join_def
        get_resource_def example_resource_def example_env_def example_files_def
        example_state_listed_def example_state_looked_up_def example_state_family_def)
  have v: "ext (example_resource ''foo'' None) = None"
    "index (example_resource ''foo'' None) = None"
    "version (example_resource ''foo'' None) = None"
    by (simp_all add: example_resource_def)
  note t = resource_identity
    [where k = "''filesystem.family''" and vs = "example_resource ''foo'' None"
       and fv = "example_resource ''foo'' None" and st = example_state
       and obj = 0 and family = 0 and sta = example_state_family
       and stb = example_state_looked_up and w = example_env and packages = "[1]"
       and stc = example_state_listed and package = 1 and nm = "''foo''" and r = "Some 0"
       and w' = example_env]
  note u = resource_identity
    [where w = example_env and nm = "''foo''" and st = example_state and r = "Some 0"
       and sta = example_state_looked_up and stb = example_state_listed
       and w' = "example_env\<lparr>isdir := \<lambda>p. False\<rparr>" and k = "''filesystem.family''"
       and vs = "example_resource ''foo'' None" and obj = 0 and family = 0
       and fv = "example_resource ''foo'' None" and stc = example_state_listed
       and packages = "[1]" and package = 1]
  from t g e1
  have "get_resource ''filesystem.family'' (example_resource ''foo'' None) example_state_looked_up
     = (0, example_state_looked_up)"
    by blast
  moreover from u f e2
  have "get_package_family (example_env\<lparr>isdir := \<lambda>p. False\<rparr>) ''foo'' example_state_listed
     = Inr (Some 0, example_state_listed)"
    by blast
  moreover from t g e1 v it
  have "\<exists>pv. handle_of example_state_listed 1 = Some (''filesystem.package'', pv)
        \<and> package_parent pv example_state_listed = (0, example_state_listed)
        \<and> (\<forall>i. variant_parent (pv\<lparr>index := i\<rparr>) example_state_listed
               = (1, example_state_listed))"
    by simp
  ultimately show ?thesis using g e1 e2 f it by blast
qed

subsection \<open>Legacy files beside the package file (C2, C9)\<close>

text \<open>
  C2. The claim: when the parsed document has no \<^verbatim>\<open>timestamp\<close>, the fields recovered from
  the legacy files are merged into it. The code at a package that has the legacy files:
  version 1.0 of \<^verbatim>\<open>bar\<close> has a \<^verbatim>\<open>package.yaml\<close> without \<^verbatim>\<open>timestamp\<close>, and beside it the
  directory \<^verbatim>\<open>.metadata\<close> with \<^verbatim>\<open>changelog.txt\<close> and \<^verbatim>\<open>release_time.txt\<close>; \<^verbatim>\<open>_load\<close> returns
  the parsed document as it is, and nothing of the legacy files is merged.
\<close>

theorem load_merges_nothing_from_legacy_files:
  "load_file example_env [''repo'', ''bar'', ''1.0'', ''package.yaml''] Yaml
     = Inr (PDict [(''name'', PStr ''bar''), (''version'', PStr ''1.0''),
                   (''changelog'', PStr ''new log'')])
   \<and> py_in ''timestamp'' (PDict [(''name'', PStr ''bar''), (''version'', PStr ''1.0''),
                                  (''changelog'', PStr ''new log'')]) = Some False
   \<and> isfile example_env [''repo'', ''bar'', ''1.0'', ''.metadata'', ''changelog.txt'']
   \<and> load_file example_env [''repo'', ''bar'', ''1.0'', ''.metadata'', ''changelog.txt''] Txt
       = Inr (PStr ''old log'')
   \<and> isfile example_env [''repo'', ''bar'', ''1.0'', ''.metadata'', ''release_time.txt'']
   \<and> load example_env (example_resource ''bar'' (Some ''1.0''))
       = Inr (PDict [(''name'', PStr ''bar''), (''version'', PStr ''1.0''),
                     (''changelog'', PStr ''new log'')])"
proof -
  have "load_file example_env [''repo'', ''bar'', ''1.0'', ''package.yaml''] Yaml
     = Inr (PDict [(''name'', PStr ''bar''), (''version'', PStr ''1.0''),
                   (''changelog'', PStr ''new log'')])"
    "load_file example_env [''repo'', ''bar'', ''1.0'', ''.metadata'', ''changelog.txt''] Txt
       = Inr (PStr ''old log'')"
    by (simp_all add: example_env_def example_load_file_def)
  moreover have "isfile example_env [''repo'', ''bar'', ''1.0'', ''.metadata'', ''changelog.txt'']"
    "isfile example_env [''repo'', ''bar'', ''1.0'', ''.metadata'', ''release_time.txt'']"
    by (simp_all add: example_env_def example_files_def)
  moreover have "py_in ''timestamp'' (PDict [(''name'', PStr ''bar''), (''version'', PStr ''1.0''),
                                  (''changelog'', PStr ''new log'')]) = Some False"
    by (simp add: dict_has_def)
  ultimately show ?thesis using example_load_bar by simp
qed

text \<open>
  C9. The claim: when \<^verbatim>\<open>.metadata/release_time.txt\<close> holds an integer, the loaded document
  gains the field \<^verbatim>\<open>timestamp\<close> with that integer. The code at version 1.0 of \<^verbatim>\<open>bar\<close>, whose
  \<^verbatim>\<open>.metadata/release_time.txt\<close> holds 1400000000: the \<^verbatim>\<open>uri\<close> of the package is the path
  of \<^verbatim>\<open>package.yaml\<close>, \<^verbatim>\<open>_load_old_formats\<close> looks for \<^verbatim>\<open>.metadata\<close> under that file, finds
  nothing and returns \<^verbatim>\<open>None\<close>, and the loaded document has no \<^verbatim>\<open>timestamp\<close>.
\<close>

theorem load_old_formats_misses_release_time:
  "isdir example_env [''repo'', ''bar'', ''1.0'', ''.metadata'']
   \<and> isfile example_env [''repo'', ''bar'', ''1.0'', ''.metadata'', ''release_time.txt'']
   \<and> load_file example_env [''repo'', ''bar'', ''1.0'', ''.metadata'', ''release_time.txt''] Txt
       = Inr (PStr (''1400000000'' @ [CHR 0x0A]))
   \<and> int_of_str example_env (strip (''1400000000'' @ [CHR 0x0A])) = Some 1400000000
   \<and> uri example_env (example_resource ''bar'' (Some ''1.0''))
       = Some [''repo'', ''bar'', ''1.0'', ''package.yaml'']
   \<and> load_old_formats example_env (example_resource ''bar'' (Some ''1.0'')) = Inr PNone
   \<and> map_option (\<lambda>doc. py_in ''timestamp'' doc)
        (case load example_env (example_resource ''bar'' (Some ''1.0'')) of
           Inl e \<Rightarrow> None | Inr doc \<Rightarrow> Some doc) = Some (Some False)"
proof -
  have "isdir example_env [''repo'', ''bar'', ''1.0'', ''.metadata'']"
    "isfile example_env [''repo'', ''bar'', ''1.0'', ''.metadata'', ''release_time.txt'']"
    by (simp_all add: example_env_def example_files_def example_dirs_def)
  moreover have "load_file example_env
       [''repo'', ''bar'', ''1.0'', ''.metadata'', ''release_time.txt''] Txt
       = Inr (PStr (''1400000000'' @ [CHR 0x0A]))"
    by (simp add: example_env_def example_load_file_def)
  moreover have "int_of_str example_env (strip (''1400000000'' @ [CHR 0x0A])) = Some 1400000000"
    by (simp add: example_env_def strip_def isspace_def)
  moreover have "uri example_env (example_resource ''bar'' (Some ''1.0''))
       = Some [''repo'', ''bar'', ''1.0'', ''package.yaml'']"
    by (simp add: uri_def package_filepath_def example_filepath_bar(1))
  moreover have "map_option (\<lambda>doc. py_in ''timestamp'' doc)
        (case load example_env (example_resource ''bar'' (Some ''1.0'')) of
           Inl e \<Rightarrow> None | Inr doc \<Rightarrow> Some doc) = Some (Some False)"
    by (simp add: example_load_bar dict_has_def)
  ultimately show ?thesis using example_load_old_formats_bar by simp
qed

subsection \<open>Version overrides of a combined package (C1)\<close>

text \<open>
  C1, as amended. For a combined package whose family document has the key
  \<^verbatim>\<open>versions\<close> and a non-empty \<^verbatim>\<open>version_overrides\<close> mapping (and whose version string is
  well formed), loading succeeds and the loaded document is the family document without
  \<^verbatim>\<open>versions\<close>, with \<^verbatim>\<open>version\<close> set, overlaid with the fragment of every range that
  contains the package's version, in the iteration order of the mapping (so on a field
  that several matching fragments define, the last of them gives the value); after the
  merge the key \<^verbatim>\<open>version_overrides\<close> is absent.
\<close>

theorem combined_load_applies_every_match:
  fixes V :: "('ver, 'rng) version_lib"
  assumes vs: "dict_has family_data ''versions''"
    and ver: "Version V (version self) = Some ver"
    and ov: "version_overrides V family_data
               = (Inr (Some ovs) :: 'e error + ('rng \<times> document) list option)"
    and ne: "ovs \<noteq> []"
  shows "\<exists>doc. (combined_load V family_data self :: 'e error + document) = Inr doc
          \<and> map_of doc ''version_overrides'' = None
          \<and> (\<forall>k. k \<noteq> ''version_overrides'' \<longrightarrow>
                map_of doc k =
                  foldl (++)
                    ((map_of family_data)
                       (''versions'' := None,
                        ''version'' \<mapsto> (case version self of None \<Rightarrow> PNone | Some s \<Rightarrow> PStr s)))
                    (map (map_of \<circ> snd)
                       (filter (\<lambda>(r, fragment). range_contains V r ver) ovs)) k)"
proof -
  let ?base = "dict_set (AList.delete ''versions'' family_data) ''version''
                 (case version self of None \<Rightarrow> PNone | Some s \<Rightarrow> PStr s)"
  let ?applied = "apply_overrides V ver ovs ?base"
  have base: "map_of ?base = (map_of family_data)
                       (''versions'' := None,
                        ''version'' \<mapsto> (case version self of None \<Rightarrow> PNone | Some s \<Rightarrow> PStr s))"
    by (simp add: dict_set_def update_conv' delete_conv')
  from ov obtain kvs where "map_of family_data ''version_overrides'' = Some (PDict kvs)"
    by (auto dest: version_overrides_Some)
  then have "map_of ?base ''version_overrides'' \<noteq> None"
    by (simp add: base)
  then have has: "dict_has ?applied ''version_overrides''"
    by (simp add: dict_has_def map_of_apply_overrides foldl_map_add_dom)
  have load: "(combined_load V family_data self :: 'e error + document)
      = Inr (AList.delete ''version_overrides'' ?applied)"
    using vs ver ov ne has by (simp add: combined_load_def Let_def dict_del_def)
  have "map_of (AList.delete ''version_overrides'' ?applied) ''version_overrides'' = None"
    by (simp add: delete_conv')
  moreover have "\<forall>k. k \<noteq> ''version_overrides'' \<longrightarrow>
      map_of (AList.delete ''version_overrides'' ?applied) k =
        foldl (++) (map_of ?base)
          (map (map_of \<circ> snd) (filter (\<lambda>(r, fragment). range_contains V r ver) ovs)) k"
    by (simp add: delete_conv' map_of_apply_overrides)
  ultimately show ?thesis
    unfolding base using load by blast
qed

theorem combined_load_applies_every_match_witness:
  "dict_has example_family ''versions''
   \<and> (version_overrides example_version_lib example_family
        :: unit error + (string \<times> document) list option)
      = Inr (Some [(''1.0'', [(''requires'', PList [PStr ''python-2.5''])]),
                   (''1.1+'', [(''requires'', PList [PStr ''python-2.6''])])])
   \<and> (\<exists>doc. (combined_load example_version_lib example_family
                (example_package ''pkgC'' (Some ''1.0'')) :: unit error + document) = Inr doc
         \<and> map_of doc ''version_overrides'' = None
         \<and> map_of doc ''versions'' = None
         \<and> map_of doc ''version'' = Some (PStr ''1.0'')
         \<and> map_of doc ''requires'' = Some (PList [PStr ''python-2.5'']))
   \<and> (\<exists>doc. (combined_load example_version_lib example_family
                (example_package ''pkgC'' (Some ''1.2'')) :: unit error + document) = Inr doc
         \<and> map_of doc ''version_overrides'' = None
         \<and> map_of doc ''versions'' = None
         \<and> map_of doc ''version'' = Some (PStr ''1.2'')
         \<and> map_of doc ''requires'' = Some (PList [PStr ''python-2.6'']))"
proof -
  let ?ovs = "[(''1.0'', [(''requires'', PList [PStr ''python-2.5''])]),
              (''1.1+'', [(''requires'', PList [PStr ''python-2.6''])])]"
  have vs: "dict_has example_family ''versions''"
    by (simp add: dict_has_def example_family_def)
  have ov: "(version_overrides example_version_lib example_family
        :: unit error + (string \<times> document) list option) = Inr (Some ?ovs)"
    by (simp add: version_overrides_def validate_overrides_def example_family_def
        example_version_lib_def)
  have ne: "?ovs \<noteq> []" by simp
  have v0: "Version example_version_lib (version (example_package ''pkgC'' (Some ''1.0'')))
      = Some ''1.0''"
    and v2: "Version example_version_lib (version (example_package ''pkgC'' (Some ''1.2'')))
      = Some ''1.2''"
    by (simp_all add: example_version_lib_def example_package_def)
  from combined_load_applies_every_match [OF vs v0 ov ne]
  obtain doc0 where d0:
    "(combined_load example_version_lib example_family
        (example_package ''pkgC'' (Some ''1.0'')) :: unit error + document) = Inr doc0"
    "map_of doc0 ''version_overrides'' = None"
    "\<forall>k. k \<noteq> ''version_overrides'' \<longrightarrow>
       map_of doc0 k =
         foldl (++)
           ((map_of example_family)
              (''versions'' := None,
               ''version'' \<mapsto> (case version (example_package ''pkgC'' (Some ''1.0'')) of
                                 None \<Rightarrow> PNone | Some s \<Rightarrow> PStr s)))
           (map (map_of \<circ> snd)
              (filter (\<lambda>(r, fragment). range_contains example_version_lib r ''1.0'') ?ovs)) k"
    by blast
  from combined_load_applies_every_match [OF vs v2 ov ne]
  obtain doc2 where d2:
    "(combined_load example_version_lib example_family
        (example_package ''pkgC'' (Some ''1.2'')) :: unit error + document) = Inr doc2"
    "map_of doc2 ''version_overrides'' = None"
    "\<forall>k. k \<noteq> ''version_overrides'' \<longrightarrow>
       map_of doc2 k =
         foldl (++)
           ((map_of example_family)
              (''versions'' := None,
               ''version'' \<mapsto> (case version (example_package ''pkgC'' (Some ''1.2'')) of
                                 None \<Rightarrow> PNone | Some s \<Rightarrow> PStr s)))
           (map (map_of \<circ> snd)
              (filter (\<lambda>(r, fragment). range_contains example_version_lib r ''1.2'') ?ovs)) k"
    by blast
  from d0(3) have "map_of doc0 ''versions'' = None"
    "map_of doc0 ''version'' = Some (PStr ''1.0'')"
    "map_of doc0 ''requires'' = Some (PList [PStr ''python-2.5''])"
    by (simp_all add: example_version_lib_def example_package_def example_family_def
        map_add_def)
  moreover from d2(3) have "map_of doc2 ''versions'' = None"
    "map_of doc2 ''version'' = Some (PStr ''1.2'')"
    "map_of doc2 ''requires'' = Some (PList [PStr ''python-2.6''])"
    by (simp_all add: example_version_lib_def example_package_def example_family_def
        map_add_def)
  ultimately show ?thesis
    using vs ov d0(1,2) d2(1,2) by blast
qed

text \<open>
  The claim as stated fails: for version 1.1 of the family with the ranges \<^verbatim>\<open>1+\<close> and
  \<^verbatim>\<open>1.1+\<close>, both ranges contain the version; the first one in iteration order sets
  \<^verbatim>\<open>requires\<close> to python-2.5, and the loaded document has the value python-2.6 of the
  later matching range.
\<close>

theorem combined_load_later_match_counterexample:
  "(version_overrides example_version_lib example_family_overlapping
      :: unit error + (string \<times> document) list option)
     = Inr (Some [(''1+'', [(''requires'', PList [PStr ''python-2.5''])]),
                  (''1.1+'', [(''requires'', PList [PStr ''python-2.6''])])])
   \<and> range_contains example_version_lib ''1+'' ''1.1''
   \<and> range_contains example_version_lib ''1.1+'' ''1.1''
   \<and> (combined_load example_version_lib example_family_overlapping
         (example_package ''pkgC'' (Some ''1.1'')) :: unit error + document)
       = Inr [(''name'', PStr ''pkgC''), (''version'', PStr ''1.1''),
              (''requires'', PList [PStr ''python-2.6''])]"
  by (simp add: combined_load_def example_version_lib_def example_family_overlapping_def
      dict_has_def dict_set_def dict_del_def dict_update_def version_overrides_def
      validate_overrides_def Let_def example_package_def)

subsection \<open>When the key version_overrides is kept (C10)\<close>

text \<open>
  C10, as amended. When the family document has no key \<^verbatim>\<open>versions\<close>, the loaded document of
  a combined package is the family document itself, unmodified (no \<^verbatim>\<open>version\<close> is set and
  \<^verbatim>\<open>version_overrides\<close> stays as it is). When the family document has \<^verbatim>\<open>versions\<close> and its
  \<^verbatim>\<open>version_overrides\<close> is the empty mapping (and the version string is well formed),
  loading raises a schema error and returns no document. And whenever a loaded document
  differs from the family document at the key \<^verbatim>\<open>version_overrides\<close>, the family document
  has \<^verbatim>\<open>versions\<close>, its \<^verbatim>\<open>version_overrides\<close> is a non-empty mapping, and the key is absent
  from the loaded document.
\<close>

theorem combined_load_version_overrides_kept:
  fixes V :: "('ver, 'rng) version_lib"
  shows
  "(\<not> dict_has family_data ''versions'' \<longrightarrow>
      (combined_load V family_data self :: 'e error + document) = Inr family_data)
   \<and> (dict_has family_data ''versions''
        \<and> map_of family_data ''version_overrides'' = Some (PDict [])
        \<and> Version V (version self) \<noteq> None \<longrightarrow>
      (combined_load V family_data self :: 'e error + document) = Inl SchemaError)
   \<and> ((combined_load V family_data self :: 'e error + document) = Inr doc
        \<and> map_of doc ''version_overrides'' \<noteq> map_of family_data ''version_overrides'' \<longrightarrow>
      dict_has family_data ''versions''
      \<and> (\<exists>kvs. map_of family_data ''version_overrides'' = Some (PDict kvs) \<and> kvs \<noteq> [])
      \<and> map_of doc ''version_overrides'' = None)"
proof (intro conjI impI)
  assume "\<not> dict_has family_data ''versions''"
  then show "(combined_load V family_data self :: 'e error + document) = Inr family_data"
    by (simp add: combined_load_def)
next
  assume a: "dict_has family_data ''versions''
        \<and> map_of family_data ''version_overrides'' = Some (PDict [])
        \<and> Version V (version self) \<noteq> None"
  then obtain ver where "Version V (version self) = Some ver" by blast
  moreover from a
  have "version_overrides V family_data
      = (Inl SchemaError :: 'e error + ('rng \<times> document) list option)"
    by (simp add: version_overrides_empty)
  ultimately show "(combined_load V family_data self :: 'e error + document) = Inl SchemaError"
    using a by (simp add: combined_load_def Let_def)
next
  assume a: "(combined_load V family_data self :: 'e error + document) = Inr doc
        \<and> map_of doc ''version_overrides'' \<noteq> map_of family_data ''version_overrides''"
  have keep: "\<And>v. map_of (dict_set (AList.delete ''versions'' family_data) ''version'' v)
        ''version_overrides'' = map_of family_data ''version_overrides''"
    by (simp add: dict_set_def update_conv' delete_conv')
  from a have vs: "dict_has family_data ''versions''"
    by (auto simp: combined_load_def split: if_splits)
  from a vs obtain ver ovs where
    ov: "version_overrides V family_data
           = (Inr (Some ovs) :: 'e error + ('rng \<times> document) list option)"
    and del: "dict_del (apply_overrides V ver ovs
               (dict_set (AList.delete ''versions'' family_data) ''version''
                  (case version self of None \<Rightarrow> PNone | Some s \<Rightarrow> PStr s)))
               ''version_overrides'' = (Inr doc :: 'e error + document)"
    by (auto simp: combined_load_def Let_def keep split: option.splits sum.splits if_splits)
  from ov obtain kvs where k: "map_of family_data ''version_overrides'' = Some (PDict kvs)"
    "kvs \<noteq> []"
    by (auto dest: version_overrides_Some)
  moreover from del have "map_of doc ''version_overrides'' = None"
    by (auto simp: dict_del_def delete_conv' split: if_splits)
  ultimately have r: "dict_has family_data ''versions''
      \<and> (\<exists>kvs. map_of family_data ''version_overrides'' = Some (PDict kvs) \<and> kvs \<noteq> [])
      \<and> map_of doc ''version_overrides'' = None"
    using vs by blast
  from r show "dict_has family_data ''versions''" by blast
  from r show "\<exists>kvs. map_of family_data ''version_overrides'' = Some (PDict kvs) \<and> kvs \<noteq> []"
    by blast
  from r show "map_of doc ''version_overrides'' = None" by blast
qed

theorem combined_load_version_overrides_kept_witness:
  "\<not> dict_has example_family_unversioned ''versions''
   \<and> (combined_load example_version_lib example_family_unversioned
         (example_package ''pkgD'' None) :: unit error + document)
       = Inr example_family_unversioned
   \<and> dict_has example_family_no_overrides ''versions''
   \<and> map_of example_family_no_overrides ''version_overrides'' = Some (PDict [])
   \<and> Version example_version_lib (version (example_package ''pkgE'' (Some ''1.0''))) \<noteq> None
   \<and> (combined_load example_version_lib example_family_no_overrides
         (example_package ''pkgE'' (Some ''1.0'')) :: unit error + document) = Inl SchemaError
   \<and> (combined_load example_version_lib example_family
         (example_package ''pkgC'' (Some ''1.0'')) :: unit error + document)
       = Inr [(''name'', PStr ''pkgC''), (''version'', PStr ''1.0''),
              (''requires'', PList [PStr ''python-2.5''])]
   \<and> dict_has example_family ''versions''
   \<and> (\<exists>kvs. map_of example_family ''version_overrides'' = Some (PDict kvs) \<and> kvs \<noteq> [])"
proof -
  have a: "\<not> dict_has example_family_unversioned ''versions''"
    and b: "dict_has example_family_no_overrides ''versions''"
      "map_of example_family_no_overrides ''version_overrides'' = Some (PDict [])"
    by (simp_all add: dict_has_def example_family_unversioned_def example_family_no_overrides_def)
  have v: "Version example_version_lib (version (example_package ''pkgE'' (Some ''1.0''))) \<noteq> None"
    by (simp add: example_version_lib_def)
  have l: "(combined_load example_version_lib example_family
         (example_package ''pkgC'' (Some ''1.0'')) :: unit error + document)
       = Inr [(''name'', PStr ''pkgC''), (''version'', PStr ''1.0''),
              (''requires'', PList [PStr ''python-2.5''])]"
    by (simp add: combined_load_def example_version_lib_def example_family_def
        dict_has_def dict_set_def dict_del_def dict_update_def version_overrides_def
        validate_overrides_def Let_def example_package_def)
  have d: "map_of [(''name'', PStr ''pkgC''), (''version'', PStr ''1.0''),
              (''requires'', PList [PStr ''python-2.5''])] ''version_overrides''
        \<noteq> map_of example_family ''version_overrides''"
    by (simp add: example_family_def)
  note t1 = combined_load_version_overrides_kept
    [where V = example_version_lib and family_data = example_family_unversioned
       and self = "example_package ''pkgD'' None" and doc = "[]", where ?'e = unit]
  note t2 = combined_load_version_overrides_kept
    [where V = example_version_lib and family_data = example_family_no_overrides
       and self = "example_package ''pkgE'' (Some ''1.0'')" and doc = "[]", where ?'e = unit]
  note t3 = combined_load_version_overrides_kept
    [where V = example_version_lib and family_data = example_family
       and self = "example_package ''pkgC'' (Some ''1.0'')"
       and doc = "[(''name'', PStr ''pkgC''), (''version'', PStr ''1.0''),
              (''requires'', PList [PStr ''python-2.5''])]", where ?'e = unit]
  from t1 a have "(combined_load example_version_lib example_family_unversioned
         (example_package ''pkgD'' None) :: unit error + document)
       = Inr example_family_unversioned"
    by blast
  moreover from t2 b v
  have "(combined_load example_version_lib example_family_no_overrides
         (example_package ''pkgE'' (Some ''1.0'')) :: unit error + document) = Inl SchemaError"
    by blast
  moreover from t3 l d
  have "dict_has example_family ''versions''
      \<and> (\<exists>kvs. map_of example_family ''version_overrides'' = Some (PDict kvs) \<and> kvs \<noteq> [])"
    by blast
  ultimately show ?thesis using a b v l by blast
qed

text \<open>
  The claim as stated fails: the family document of \<^verbatim>\<open>pkgE\<close> has \<^verbatim>\<open>versions\<close> and an empty
  \<^verbatim>\<open>version_overrides\<close> mapping; loading version 1.0 returns no document that keeps the key,
  it raises the schema error of the validation of \<^verbatim>\<open>version_overrides\<close>.
\<close>

theorem combined_load_empty_overrides_counterexample:
  "dict_has example_family_no_overrides ''versions''
   \<and> map_of example_family_no_overrides ''version_overrides'' = Some (PDict [])
   \<and> (version_overrides example_version_lib example_family_no_overrides
        :: unit error + (string \<times> document) list option) = Inl SchemaError
   \<and> (combined_load example_version_lib example_family_no_overrides
         (example_package ''pkgE'' (Some ''1.0'')) :: unit error + document) = Inl SchemaError"
  by (simp add: combined_load_def example_version_lib_def example_family_no_overrides_def
      dict_has_def dict_set_def version_overrides_def validate_overrides_def Let_def
      example_package_def)

end
